theory Spec2Isabelle
  imports Main "HOL-Library.Word"
begin

section \<open>Bytes and strings\<close>

text \<open>
  A Go \<^verbatim>\<open>[]byte\<close> value is a list of 8-bit words; a Go \<^verbatim>\<open>string\<close> is a
  list of characters (bytes).
\<close>

type_synonym byte = "8 word"
type_synonym bytes = "byte list"

section \<open>Package internal: the canonicalizer\<close>

subsection \<open>The Go library functions it calls\<close>

text \<open>
  \<^verbatim>\<open>strings.Split(s, "\n")\<close>: the pieces of \<open>s\<close> between the occurrences of the
  separator, an occurrence more than there are separators; a string with no
  separator is the only piece. The scan keeps the piece read so far in \<open>cur\<close>.
\<close>

fun split_scan :: "char \<Rightarrow> string \<Rightarrow> string \<Rightarrow> string list" where
  "split_scan sep cur [] = [rev cur]"
| "split_scan sep cur (c # cs) =
     (if c = sep then rev cur # split_scan sep [] cs else split_scan sep (c # cur) cs)"

definition Split :: "string \<Rightarrow> char \<Rightarrow> string list" where
  "Split s sep = split_scan sep [] s"

text \<open>
  \<^verbatim>\<open>strings.TrimRight(s, cutset)\<close> for a cutset of ASCII characters: the longest
  prefix of \<open>s\<close> whose last character is not in the cutset. The loop walks down
  from the end of the string, as the library does.
\<close>

fun trim_from :: "nat \<Rightarrow> string \<Rightarrow> string \<Rightarrow> string" where
  "trim_from 0 s cutset = []"
| "trim_from (Suc n) s cutset =
     (if s ! n \<in> set cutset then trim_from n s cutset else take (Suc n) s)"

definition TrimRight :: "string \<Rightarrow> string \<Rightarrow> string" where
  "TrimRight s cutset = trim_from (length s) s cutset"

text \<open>
  \<^verbatim>\<open>strings.Join(elems, sep)\<close>: nothing for no element, else the first element
  and then, for each further one, the separator and the element.
\<close>

fun join_rest :: "string \<Rightarrow> string list \<Rightarrow> string" where
  "join_rest sep [] = []"
| "join_rest sep (e # es) = sep @ e @ join_rest sep es"

fun Join :: "string list \<Rightarrow> string \<Rightarrow> string" where
  "Join [] sep = []"
| "Join (e # es) sep = e @ join_rest sep es"

subsection \<open>CanonicalizeAndTrim\<close>

definition LF :: char where "LF = CHR 0x0A"
definition CR :: char where "CR = CHR 0x0D"
definition TAB :: char where "TAB = CHR 0x09"
definition SP :: char where "SP = CHR 0x20"

text \<open>
  The loop \<^verbatim>\<open>for i := range lines { lines[i] = strings.TrimRight(lines[i], " \t\r") }\<close>
  updates the slice in place, index by index; \<open>trim_lines i lines\<close> is the slice
  when the loop stands at index \<open>i\<close> and runs to the end.
\<close>

function trim_lines :: "nat \<Rightarrow> string list \<Rightarrow> string list" where
  "trim_lines i lines =
     (if i < length lines
      then trim_lines (Suc i) (lines[i := TrimRight (lines ! i) [SP, TAB, CR]])
      else lines)"
  by pat_completeness auto
termination
  by (relation "measure (\<lambda>(i, lines). length lines - i)") auto

declare trim_lines.simps [simp del]

definition CanonicalizeAndTrim :: "string \<Rightarrow> string" where
  "CanonicalizeAndTrim text_in =
     (let lines = Split text_in LF;
          lines = trim_lines 0 lines
      in Join lines [CR, LF])"

subsection \<open>The canonical form as the specification words it\<close>

text \<open>
  The specification's three steps, each written as a property of the whole text
  rather than as the loop that computes it: the lines are the maximal runs
  without a line feed; a line is stripped by dropping, from its end, the longest
  run of spaces, tabs and carriage returns; the lines are rejoined by putting
  CR LF before each and dropping the first CR LF.
\<close>

definition split_on_LF :: "string \<Rightarrow> string list" where
  "split_on_LF s = foldr (\<lambda>c ls. if c = LF then [] # ls else (c # hd ls) # tl ls) s [[]]"

definition strip_trailing :: "string \<Rightarrow> string" where
  "strip_trailing l = rev (dropWhile (\<lambda>c. c = SP \<or> c = TAB \<or> c = CR) (rev l))"

definition rejoin_CRLF :: "string list \<Rightarrow> string" where
  "rejoin_CRLF ls = drop 2 (concat (map (\<lambda>l. [CR, LF] @ l) ls))"

definition canonical_spec :: "string \<Rightarrow> string" where
  "canonical_spec t = rejoin_CRLF (map strip_trailing (split_on_LF t))"

section \<open>Package crypto: errors, readers and the cipher registry\<close>

text \<open>
  Go errors are values. \<open>New\<close> is \<^verbatim>\<open>errors.New\<close>, \<open>Wrap\<close> is
  \<^verbatim>\<open>errors.Wrap(err, msg)\<close>, \<open>Errorf\<close> is the one \<^verbatim>\<open>fmt.Errorf\<close> of
  the file (its format and the cipher identifier it prints), and
  \<open>SignatureVerificationError\<close> is the package's error type for a signature
  status (the statuses are the constants the tests compare with). \<open>Panic\<close> is
  a run-time panic. The errors the libraries return are values of the same
  type.
\<close>

type_synonym CipherFunction = "8 word"
type_synonym CompressionAlgo = "8 word"

datatype sig_status = SIGNATURE_NOT_SIGNED | SIGNATURE_NO_VERIFIER | SIGNATURE_FAILED

datatype error =
    New string
  | Wrap error string
  | Errorf string CipherFunction
  | SignatureVerificationError sig_status
  | Panic string

text \<open>
  An \<^verbatim>\<open>io.Reader\<close> over data already in memory: the bytes it delivers and how
  it ends, \<open>None\<close> for \<^verbatim>\<open>io.EOF\<close> and \<open>Some e\<close> for an error.
  \<^verbatim>\<open>io.ReadFull\<close> fills a buffer of \<open>sz\<close> bytes or fails;
  \<^verbatim>\<open>bytes.Buffer.ReadFrom\<close> reads to the end and fails only on an error other
  than the end of the data.
\<close>

type_synonym Reader = "bytes \<times> error option"

definition ReadFull :: "Reader \<Rightarrow> nat \<Rightarrow> error + bytes" where
  "ReadFull r sz =
     (if sz \<le> length (fst r) then Inr (take sz (fst r))
      else (case snd r of
              Some e \<Rightarrow> Inl e
            | None \<Rightarrow> if fst r = [] then Inl (New ''EOF'') else Inl (New ''unexpected EOF'')))"

definition ReadFrom :: "Reader \<Rightarrow> error + bytes" where
  "ReadFrom r = (case snd r of None \<Rightarrow> Inr (fst r) | Some e \<Rightarrow> Inl e)"

text \<open>
  What the file takes from outside it and \<^verbatim>\<open>src/\<close> does not hold: the algorithm
  names of package \<^verbatim>\<open>constants\<close>, the cipher identifiers and \<^verbatim>\<open>KeySize\<close> of
  package \<^verbatim>\<open>packet\<close>, the compression constants, and the process's random source
  (\<^verbatim>\<open>config.Random()\<close>). They are parameters of the model: every definition below
  takes them in a record \<open>E\<close>.
\<close>

record env =
  ThreeDES :: string
  TripleDES :: string
  CAST5 :: string
  AES128 :: string
  AES192 :: string
  AES256 :: string
  Cipher3DES :: CipherFunction
  CipherCAST5 :: CipherFunction
  CipherAES128 :: CipherFunction
  CipherAES192 :: CipherFunction
  CipherAES256 :: CipherFunction
  KeySize :: "CipherFunction \<Rightarrow> nat"
  CompressionNone :: CompressionAlgo
  DefaultCompression :: CompressionAlgo
  DefaultCompressionLevel :: int
  Random :: Reader

text \<open>
  \<^verbatim>\<open>var symKeyAlgos = map[string]packet.CipherFunction{...}\<close>: the literal's
  entries in the order of the source, and the map they make. (Go refuses a map
  literal with two equal constant keys, so the six names are distinct in any
  program that compiles.)
\<close>

definition symKeyAlgos_entries :: "env \<Rightarrow> (string \<times> CipherFunction) list" where
  "symKeyAlgos_entries E =
     [(ThreeDES E, Cipher3DES E),
      (TripleDES E, Cipher3DES E),
      (CAST5 E, CipherCAST5 E),
      (AES128 E, CipherAES128 E),
      (AES192 E, CipherAES192 E),
      (AES256 E, CipherAES256 E)]"

definition symKeyAlgos :: "env \<Rightarrow> string \<rightharpoonup> CipherFunction" where
  "symKeyAlgos E = map_of (symKeyAlgos_entries E)"

text \<open>
  \<^verbatim>\<open>for k, v := range symKeyAlgos\<close> visits the entries of the map in an order the
  runtime chooses. The loops below take that order as the list \<open>ord\<close>;
  \<open>range_order E ord\<close> says that \<open>ord\<close> lists the entries of the map, each key
  once.
\<close>

definition range_order :: "env \<Rightarrow> (string \<times> CipherFunction) list \<Rightarrow> bool" where
  "range_order E ord \<longleftrightarrow>
     distinct (map fst ord) \<and>
     list_all (\<lambda>kv. symKeyAlgos E (fst kv) = Some (snd kv)) ord \<and>
     list_all (\<lambda>kv. fst kv \<in> set (map fst ord)) (symKeyAlgos_entries E)"

section \<open>Package crypto: SessionKey\<close>

record SessionKey =
  Key :: bytes
  Algo :: string

definition GetCipherFunc :: "env \<Rightarrow> SessionKey \<Rightarrow> error + CipherFunction" where
  "GetCipherFunc E sk =
     (case symKeyAlgos E (Algo sk) of
        None \<Rightarrow> Inl (New (''gopenpgp: unsupported cipher function: '' @ Algo sk))
      | Some cf \<Rightarrow> Inr cf)"

definition RandomToken :: "env \<Rightarrow> nat \<Rightarrow> error + bytes" where
  "RandomToken E sz =
     (case ReadFull (Random E) sz of
        Inl err \<Rightarrow> Inl (Wrap err ''gopenpgp: error in generating random token'')
      | Inr symKey \<Rightarrow> Inr symKey)"

definition GenerateSessionKeyAlgo :: "env \<Rightarrow> string \<Rightarrow> error + SessionKey" where
  "GenerateSessionKeyAlgo E algo =
     (case symKeyAlgos E algo of
        None \<Rightarrow> Inl (New ''gopenpgp: unknown symmetric key generation algorithm'')
      | Some cf \<Rightarrow>
          (case RandomToken E (KeySize E cf) of
             Inl err \<Rightarrow> Inl err
           | Inr r \<Rightarrow> Inr \<lparr>Key = r, Algo = algo\<rparr>))"

definition GenerateSessionKey :: "env \<Rightarrow> error + SessionKey" where
  "GenerateSessionKey E = GenerateSessionKeyAlgo E (AES256 E)"

definition checkSize :: "env \<Rightarrow> SessionKey \<Rightarrow> error option" where
  "checkSize E sk =
     (case symKeyAlgos E (Algo sk) of
        None \<Rightarrow> Some (New ''unknown symmetric key algorithm'')
      | Some cf \<Rightarrow>
          if KeySize E cf \<noteq> length (Key sk) then Some (New ''wrong session key size'')
          else None)"

text \<open>
  \<^verbatim>\<open>getAlgo\<close>: the loop leaves \<open>algo\<close> as it is until an entry's value is the
  cipher, takes that entry's key and stops.
\<close>

fun getAlgo_loop :: "string \<Rightarrow> (string \<times> CipherFunction) list \<Rightarrow> CipherFunction \<Rightarrow> string" where
  "getAlgo_loop algo [] cipher = algo"
| "getAlgo_loop algo ((k, v) # rest) cipher =
     (if v = cipher then k else getAlgo_loop algo rest cipher)"

definition getAlgo :: "env \<Rightarrow> (string \<times> CipherFunction) list \<Rightarrow> CipherFunction \<Rightarrow> string" where
  "getAlgo E ord cipher = getAlgo_loop (AES256 E) ord cipher"

text \<open>
  \<^verbatim>\<open>NewSessionKeyFromToken\<close>. The helper \<^verbatim>\<open>clone\<close> it calls is not under
  \<^verbatim>\<open>src/\<close>; on values, the key has the bytes of the token, whether the two
  share them or not. There is no check and no error result.
\<close>

definition NewSessionKeyFromToken :: "bytes \<Rightarrow> string \<Rightarrow> SessionKey" where
  "NewSessionKeyFromToken token algo = \<lparr>Key = token, Algo = algo\<rparr>"

text \<open>\<^verbatim>\<open>packet.EncryptedKey\<close>, the two fields the file reads.\<close>

record EncryptedKey =
  CipherFunc :: CipherFunction
  EncKey :: bytes

definition newSessionKeyFromEncrypted ::
  "env \<Rightarrow> (string \<times> CipherFunction) list \<Rightarrow> EncryptedKey \<Rightarrow> error + SessionKey" where
  "newSessionKeyFromEncrypted E ord ek =
     (let algo = getAlgo_loop [] ord (CipherFunc ek) in
      if algo = [] then
        Inl (Errorf ''gopenpgp: unsupported cipher function: %v'' (CipherFunc ek))
      else
        (let sk = \<lparr>Key = EncKey ek, Algo = algo\<rparr> in
         case checkSize E sk of
           Some err \<Rightarrow> Inl (Wrap err ''gopenpgp: unable to decrypt session key'')
         | None \<Rightarrow> Inr sk))"

section \<open>Package crypto: messages and the libraries' types\<close>

record PlainMessage =
  Data :: bytes
  TextType :: bool
  Filename :: string
  Time :: "32 word"

text \<open>
  Modelled from the spec: the methods \<^verbatim>\<open>IsBinary\<close> and \<^verbatim>\<open>GetBinary\<close> of
  \<^verbatim>\<open>PlainMessage\<close> are not under \<^verbatim>\<open>src/\<close>. The message has "a flag marking
  it as binary vs. text" and its "raw byte content": the message is binary when
  it is not of text type, and its binary form is its data.
\<close>

definition PlainMessage_IsBinary :: "PlainMessage \<Rightarrow> bool" where
  "PlainMessage_IsBinary message = (\<not> TextType message)"

definition GetBinary :: "PlainMessage \<Rightarrow> bytes" where
  "GetBinary message = Data message"

text \<open>
  The types of \<^verbatim>\<open>openpgp\<close> and \<^verbatim>\<open>packet\<close> that the file names, with the fields
  it reads or sets. An entity is known by an identifier only. A packet read from
  the input is a symmetrically encrypted packet (with its contents) or a packet
  of another type (with its tag). In \<open>MessageDetails\<close> the signature fields are
  as the library leaves them once the body has been read to its end.
\<close>

datatype Entity = Entity nat

record KeyRing =
  entities :: "Entity list"

record CompressionConfig =
  Level :: int

record Config =
  ConfigTime :: int
  DefaultCipher :: CipherFunction
  DefaultCompressionAlgo :: CompressionAlgo
  CompressionConfig :: "CompressionConfig option"

record FileHints =
  HintIsBinary :: bool
  HintFileName :: string
  ModTime :: int

record LiteralData =
  IsBinary :: bool
  FileName :: string
  LitTime :: "32 word"

record MessageDetails =
  IsSigned :: bool
  SignedByKeyId :: "64 word"
  SignatureError :: "error option"
  LiteralData :: LiteralData
  UnverifiedBody :: Reader

datatype Packet = SymmetricallyEncrypted bytes | OtherPacket "8 word" bytes

text \<open>
  The functions the file calls and \<^verbatim>\<open>src/\<close> does not hold, for the read
  direction: of the libraries, \<^verbatim>\<open>config.Cipher()\<close>, \<^verbatim>\<open>config.Compression()\<close>,
  \<^verbatim>\<open>packet.NewReader(r).Next()\<close> on the bytes of the input,
  \<^verbatim>\<open>(*SymmetricallyEncrypted).Decrypt\<close> on the packet's contents and
  \<^verbatim>\<open>openpgp.ReadMessage\<close> (its prompt argument is nil in the file); of package
  crypto, \<^verbatim>\<open>getTimeGenerator\<close> (the time it gives) and \<^verbatim>\<open>getSigningEntity\<close>.

  Modelled from the spec: \<^verbatim>\<open>processSignatureExpiration\<close> and
  \<^verbatim>\<open>verifyDetailsSignature\<close> of package crypto are not under \<^verbatim>\<open>src/\<close>. The
  first "evaluates the signature timestamp against the supplied verification
  time": it gives the signature error the message details hold afterwards. The
  second "computes the signature-status outcome": it gives an error, or none.
  Both are parameters, so every theorem below holds whatever they compute.
\<close>

record lib =
  getTimeGenerator :: int
  Cipher :: "Config \<Rightarrow> CipherFunction"
  Compression :: "Config \<Rightarrow> CompressionAlgo"
  Next :: "bytes \<Rightarrow> error + Packet"
  Decrypt_se :: "bytes \<Rightarrow> CipherFunction \<Rightarrow> bytes \<Rightarrow> error + Reader"
  ReadMessage :: "Reader \<Rightarrow> Entity list \<Rightarrow> Config \<Rightarrow> error + MessageDetails"
  processSignatureExpiration :: "MessageDetails \<Rightarrow> int \<Rightarrow> error option"
  verifyDetailsSignature :: "MessageDetails \<Rightarrow> KeyRing \<Rightarrow> error option"
  getSigningEntity :: "KeyRing \<Rightarrow> error + Entity"

text \<open>
  The write direction works on writers that wrap one another and share the
  buffer under them, so the library's calls are functions on a state \<open>'s\<close> (all
  the writers and buffers there are), and a writer is a handle \<open>'w\<close> into it.
  \<open>NewBuffer\<close> is \<^verbatim>\<open>new(bytes.Buffer)\<close> and \<open>BufferBytes\<close> its \<^verbatim>\<open>Bytes()\<close>;
  \<open>Write\<close> and \<open>Close\<close> are the methods of \<^verbatim>\<open>io.WriteCloser\<close>.
\<close>

record ('w, 's) writers =
  NewBuffer :: "'s \<Rightarrow> 'w \<times> 's"
  BufferBytes :: "'w \<Rightarrow> 's \<Rightarrow> bytes"
  SerializeSymmetricallyEncrypted ::
    "'w \<Rightarrow> CipherFunction \<Rightarrow> bytes \<Rightarrow> Config \<Rightarrow> 's \<Rightarrow> (error + 'w) \<times> 's"
  SerializeCompressed ::
    "'w \<Rightarrow> CompressionAlgo \<Rightarrow> CompressionConfig option \<Rightarrow> 's \<Rightarrow> (error + 'w) \<times> 's"
  SerializeLiteral :: "'w \<Rightarrow> bool \<Rightarrow> string \<Rightarrow> 32 word \<Rightarrow> 's \<Rightarrow> (error + 'w) \<times> 's"
  Sign :: "'w \<Rightarrow> Entity \<Rightarrow> FileHints \<Rightarrow> Config \<Rightarrow> 's \<Rightarrow> (error + 'w) \<times> 's"
  Write :: "'w \<Rightarrow> bytes \<Rightarrow> 's \<Rightarrow> error option \<times> 's"
  Close :: "'w \<Rightarrow> 's \<Rightarrow> error option \<times> 's"

section \<open>Package crypto: encryption with a session key\<close>

text \<open>
  \<^verbatim>\<open>encryptStreamWithSessionKey\<close>. The results are the two writers (the second
  is nil when there is no signing entity) or the error, and the state.
\<close>

definition encryptStreamWithSessionKey ::
  "env \<Rightarrow> lib \<Rightarrow> ('w, 's) writers \<Rightarrow> bool \<Rightarrow> string \<Rightarrow> 32 word \<Rightarrow> 'w \<Rightarrow> SessionKey \<Rightarrow>
   Entity option \<Rightarrow> Config \<Rightarrow> 's \<Rightarrow> (error + 'w \<times> 'w option) \<times> 's" where
  "encryptStreamWithSessionKey E L W isBinary filename modTime dataPacketWriter sk signEntity config s =
     (case SerializeSymmetricallyEncrypted W dataPacketWriter (Cipher L config) (Key sk) config s of
        (Inl err, s1) \<Rightarrow> (Inl (Wrap err ''gopenpgp: unable to encrypt''), s1)
      | (Inr encryptWriter, s1) \<Rightarrow>
          (case (let algo = Compression L config in
                 if algo \<noteq> CompressionNone E then
                   (case SerializeCompressed W encryptWriter algo (CompressionConfig config) s1 of
                      (Inl err, s2) \<Rightarrow> (Inl (Wrap err ''gopenpgp: error in compression''), s2)
                    | (Inr encryptWriter, s2) \<Rightarrow> (Inr encryptWriter, s2))
                 else (Inr encryptWriter, s1)) of
             (Inl err, s2) \<Rightarrow> (Inl err, s2)
           | (Inr encryptWriter, s2) \<Rightarrow>
               (case signEntity of
                  Some ent \<Rightarrow>
                    (let hints = \<lparr>HintIsBinary = isBinary, HintFileName = filename,
                                  ModTime = uint modTime\<rparr> in
                     case Sign W encryptWriter ent hints config s2 of
                       (Inl err, s3) \<Rightarrow> (Inl (Wrap err ''gopenpgp: unable to sign''), s3)
                     | (Inr signWriter, s3) \<Rightarrow> (Inr (encryptWriter, Some signWriter), s3))
                | None \<Rightarrow>
                    (case SerializeLiteral W encryptWriter isBinary filename modTime s2 of
                       (Inl err, s3) \<Rightarrow> (Inl (Wrap err ''gopenpgp: unable to serialize''), s3)
                     | (Inr encryptWriter, s3) \<Rightarrow> (Inr (encryptWriter, None), s3)))))"

text \<open>
  \<^verbatim>\<open>encryptWithSessionKey\<close>, in two parts: the branch on the signing entity,
  which writes the message and leaves \<open>err\<close> (or returns at once, the \<open>Inl\<close>
  results), and the lines after it, from \<^verbatim>\<open>if err != nil\<close> on. A call of a
  method of the nil \<^verbatim>\<open>signWriter\<close> panics.
\<close>

definition encryptWithSessionKey_write ::
  "('w, 's) writers \<Rightarrow> PlainMessage \<Rightarrow> Entity option \<Rightarrow> 'w \<Rightarrow> 'w option \<Rightarrow> 's \<Rightarrow>
   (error + error option) \<times> 's" where
  "encryptWithSessionKey_write W message signEntity encryptWriter signWriter s =
     (case signEntity of
        Some ent \<Rightarrow>
          (case signWriter of
             None \<Rightarrow> (Inl (Panic ''invalid memory address or nil pointer dereference''), s)
           | Some sw \<Rightarrow>
               (case Write W sw (GetBinary message) s of
                  (Some err, s1) \<Rightarrow>
                    (Inl (Wrap err ''gopenpgp: error in writing signed message''), s1)
                | (None, s1) \<Rightarrow>
                    (case Close W sw s1 of
                       (Some err, s2) \<Rightarrow>
                         (Inl (Wrap err ''gopenpgp: error in closing signing writer''), s2)
                     | (None, s2) \<Rightarrow> (Inr None, s2))))
      | None \<Rightarrow>
          (case Write W encryptWriter (GetBinary message) s of
             (err, s1) \<Rightarrow> (Inr err, s1)))"

definition encryptWithSessionKey ::
  "env \<Rightarrow> lib \<Rightarrow> ('w, 's) writers \<Rightarrow> PlainMessage \<Rightarrow> SessionKey \<Rightarrow> Entity option \<Rightarrow> Config \<Rightarrow>
   's \<Rightarrow> (error + bytes) \<times> 's" where
  "encryptWithSessionKey E L W message sk signEntity config s =
     (case NewBuffer W s of
        (encBuf, s0) \<Rightarrow>
          (case encryptStreamWithSessionKey E L W (PlainMessage_IsBinary message)
                  (Filename message) (Time message) encBuf sk signEntity config s0 of
             (Inl err, s1) \<Rightarrow> (Inl err, s1)
           | (Inr (encryptWriter, signWriter), s1) \<Rightarrow>
               (case encryptWithSessionKey_write W message signEntity encryptWriter signWriter s1 of
                  (Inl err, s2) \<Rightarrow> (Inl err, s2)
                | (Inr (Some err), s2) \<Rightarrow>
                    (Inl (Wrap err ''gopenpgp: error in writing message''), s2)
                | (Inr None, s2) \<Rightarrow>
                    (case Close W encryptWriter s2 of
                       (Some err, s3) \<Rightarrow>
                         (Inl (Wrap err ''gopenpgp: error in closing encryption writer''), s3)
                     | (None, s3) \<Rightarrow> (Inr (BufferBytes W encBuf s3), s3)))))"

definition Encrypt ::
  "env \<Rightarrow> lib \<Rightarrow> ('w, 's) writers \<Rightarrow> SessionKey \<Rightarrow> PlainMessage \<Rightarrow> 's \<Rightarrow> (error + bytes) \<times> 's" where
  "Encrypt E L W sk message s =
     (case GetCipherFunc E sk of
        Inl err \<Rightarrow> (Inl (Wrap err ''gopenpgp: unable to encrypt with session key''), s)
      | Inr dc \<Rightarrow>
          (let config = \<lparr>ConfigTime = getTimeGenerator L, DefaultCipher = dc,
                          DefaultCompressionAlgo = 0, CompressionConfig = None\<rparr>
           in encryptWithSessionKey E L W message sk None config s))"

definition EncryptAndSign ::
  "env \<Rightarrow> lib \<Rightarrow> ('w, 's) writers \<Rightarrow> SessionKey \<Rightarrow> PlainMessage \<Rightarrow> KeyRing \<Rightarrow> 's \<Rightarrow>
   (error + bytes) \<times> 's" where
  "EncryptAndSign E L W sk message signKeyRing s =
     (case GetCipherFunc E sk of
        Inl err \<Rightarrow> (Inl (Wrap err ''gopenpgp: unable to encrypt with session key''), s)
      | Inr dc \<Rightarrow>
          (let config = \<lparr>ConfigTime = getTimeGenerator L, DefaultCipher = dc,
                          DefaultCompressionAlgo = 0, CompressionConfig = None\<rparr>
           in case getSigningEntity L signKeyRing of
                Inl err \<Rightarrow> (Inl (Wrap err ''gopenpgp: unable to sign''), s)
              | Inr signEntity \<Rightarrow>
                  encryptWithSessionKey E L W message sk (Some signEntity) config s))"

definition EncryptWithCompression ::
  "env \<Rightarrow> lib \<Rightarrow> ('w, 's) writers \<Rightarrow> SessionKey \<Rightarrow> PlainMessage \<Rightarrow> 's \<Rightarrow> (error + bytes) \<times> 's" where
  "EncryptWithCompression E L W sk message s =
     (case GetCipherFunc E sk of
        Inl err \<Rightarrow> (Inl (Wrap err ''gopenpgp: unable to encrypt with session key''), s)
      | Inr dc \<Rightarrow>
          (let config = \<lparr>ConfigTime = getTimeGenerator L, DefaultCipher = dc,
                          DefaultCompressionAlgo = DefaultCompression E,
                          CompressionConfig = Some \<lparr>Level = DefaultCompressionLevel E\<rparr>\<rparr>
           in encryptWithSessionKey E L W message sk None config s))"

section \<open>Package crypto: decryption with a session key\<close>

definition decryptStreamWithSessionKey ::
  "env \<Rightarrow> lib \<Rightarrow> SessionKey \<Rightarrow> bytes \<Rightarrow> KeyRing option \<Rightarrow> error + MessageDetails" where
  "decryptStreamWithSessionKey E L sk messageReader verifyKeyRing =
     (case Next L messageReader of
        Inl err \<Rightarrow> Inl (Wrap err ''gopenpgp: unable to read symmetric packet'')
      | Inr p \<Rightarrow>
          (case p of
             SymmetricallyEncrypted contents \<Rightarrow>
               (case GetCipherFunc E sk of
                  Inl err \<Rightarrow> Inl (Wrap err ''gopenpgp: unable to decrypt with session key'')
                | Inr dc \<Rightarrow>
                    (case Decrypt_se L contents dc (Key sk) of
                       Inl err \<Rightarrow> Inl (Wrap err ''gopenpgp: unable to decrypt symmetric packet'')
                     | Inr decrypted \<Rightarrow>
                         (let config = \<lparr>ConfigTime = getTimeGenerator L, DefaultCipher = 0,
                                         DefaultCompressionAlgo = 0, CompressionConfig = None\<rparr>;
                              keyring = (case verifyKeyRing of
                                           Some kr \<Rightarrow> entities kr
                                         | None \<Rightarrow> [])
                          in case ReadMessage L decrypted keyring config of
                               Inl err \<Rightarrow>
                                 Inl (Wrap err ''gopenpgp: unable to decode symmetric packet'')
                             | Inr md \<Rightarrow> Inr md)))
           | OtherPacket tag contents \<Rightarrow> Inl (New ''gopenpgp: invalid packet type'')))"

text \<open>
  \<^verbatim>\<open>DecryptAndVerify\<close> returns a pair: the message (nil or not) and the error
  (nil or not).
\<close>

definition DecryptAndVerify ::
  "env \<Rightarrow> lib \<Rightarrow> SessionKey \<Rightarrow> bytes \<Rightarrow> KeyRing option \<Rightarrow> int \<Rightarrow>
   PlainMessage option \<times> error option" where
  "DecryptAndVerify E L sk dataPacket verifyKeyRing verifyTime =
     (case decryptStreamWithSessionKey E L sk dataPacket verifyKeyRing of
        Inl err \<Rightarrow> (None, Some err)
      | Inr md \<Rightarrow>
          (case ReadFrom (UnverifiedBody md) of
             Inl err \<Rightarrow> (None, Some (Wrap err ''gopenpgp: error in reading message body''))
           | Inr messageBuf \<Rightarrow>
               (case (case verifyKeyRing of
                        Some kr \<Rightarrow>
                          (let md = md\<lparr>SignatureError := processSignatureExpiration L md verifyTime\<rparr>
                           in (md, verifyDetailsSignature L md kr))
                      | None \<Rightarrow> (md, None)) of
                  (md, err) \<Rightarrow>
                    (Some \<lparr>Data = messageBuf,
                           TextType = (\<not> IsBinary (LiteralData md)),
                           Filename = FileName (LiteralData md),
                           Time = LitTime (LiteralData md)\<rparr>, err))))"

definition Decrypt ::
  "env \<Rightarrow> lib \<Rightarrow> SessionKey \<Rightarrow> bytes \<Rightarrow> PlainMessage option \<times> error option" where
  "Decrypt E L sk dataPacket = DecryptAndVerify E L sk dataPacket None 0"

section \<open>A reference instance\<close>

text \<open>
  To run the definitions on concrete inputs, one instance of the parameters. The
  environment has the names and the numbers of the OpenPGP registry of symmetric
  algorithms. The library is a small packet format of the same shape as
  OpenPGP's: a symmetric packet is its tag, the cipher and the payload, each
  byte of the payload masked with the exclusive or of the key's bytes; a
  compressed packet is its tag, the algorithm and the payload as it is; a
  signed message has a one-pass header with the signer's identifier; a literal
  packet is its tag, the format byte, the file name (255 bytes at most) behind
  its length, four bytes of time and the body.
\<close>

definition ref_KeySize :: "CipherFunction \<Rightarrow> nat" where
  "ref_KeySize c =
     (if c = 2 then 24 else if c = 3 then 16 else if c = 7 then 16
      else if c = 8 then 24 else if c = 9 then 32 else 0)"

definition ref_env :: env where
  "ref_env =
     \<lparr>ThreeDES = ''3des'', TripleDES = ''tripledes'', CAST5 = ''cast5'',
      AES128 = ''aes128'', AES192 = ''aes192'', AES256 = ''aes256'',
      Cipher3DES = 2, CipherCAST5 = 3, CipherAES128 = 7, CipherAES192 = 8, CipherAES256 = 9,
      KeySize = ref_KeySize,
      CompressionNone = 0, DefaultCompression = 2, DefaultCompressionLevel = 6,
      Random = (replicate 32 0x5A, None)\<rparr>"

definition keymask :: "bytes \<Rightarrow> byte" where
  "keymask k = foldr xor k 0"

definition time_bytes :: "32 word \<Rightarrow> bytes" where
  "time_bytes t = [ucast (drop_bit 24 t), ucast (drop_bit 16 t), ucast (drop_bit 8 t), ucast t]"

definition bytes_time :: "bytes \<Rightarrow> 32 word" where
  "bytes_time bs =
     or (push_bit 24 (ucast (bs ! 0)))
       (or (push_bit 16 (ucast (bs ! 1)))
         (or (push_bit 8 (ucast (bs ! 2))) (ucast (bs ! 3))))"

definition literal_header :: "bool \<Rightarrow> string \<Rightarrow> 32 word \<Rightarrow> bytes" where
  "literal_header b f t =
     [0xCB, if b then 0x62 else 0x75, of_nat (length (take 255 f))] @
     map of_char (take 255 f) @ time_bytes t"

type_synonym ref_state = "bytes \<times> byte"

definition emit :: "bytes \<Rightarrow> ref_state \<Rightarrow> ref_state" where
  "emit d s = (fst s @ map (xor (snd s)) d, snd s)"

definition ref_writers :: "(nat, ref_state) writers" where
  "ref_writers =
     \<lparr>NewBuffer = (\<lambda>s. (0, ([], 0))),
      BufferBytes = (\<lambda>w s. fst s),
      SerializeSymmetricallyEncrypted = (\<lambda>w c k config s.
        if ref_KeySize c \<noteq> length k then (Inl (New ''openpgp: invalid argument: key size''), s)
        else (Inr (Suc w), (fst (emit [0xD2, c] s), keymask k))),
      SerializeCompressed = (\<lambda>w algo cc s. (Inr (Suc w), emit [0xC8, algo] s)),
      SerializeLiteral = (\<lambda>w b f t s. (Inr (Suc w), emit (literal_header b f t) s)),
      Sign = (\<lambda>w ent hints config s.
        case ent of Entity i \<Rightarrow>
          (Inr (Suc w),
           emit ([0xC4, of_nat i] @
                 literal_header (HintIsBinary hints) (HintFileName hints)
                   (word_of_int (ModTime hints))) s)),
      Write = (\<lambda>w d s. (None, emit d s)),
      Close = (\<lambda>w s. (None, s))\<rparr>"

definition ref_Next :: "bytes \<Rightarrow> error + Packet" where
  "ref_Next bs =
     (case bs of
        [] \<Rightarrow> Inl (New ''EOF'')
      | tag # contents \<Rightarrow>
          if tag = 0xD2 then Inr (SymmetricallyEncrypted contents)
          else Inr (OtherPacket tag contents))"

definition ref_Decrypt :: "bytes \<Rightarrow> CipherFunction \<Rightarrow> bytes \<Rightarrow> error + Reader" where
  "ref_Decrypt contents c k =
     (case contents of
        [] \<Rightarrow> Inl (New ''unexpected EOF'')
      | c' # payload \<Rightarrow>
          if c' \<noteq> c \<or> ref_KeySize c \<noteq> length k
          then Inl (New ''openpgp: invalid argument: cipher or key size'')
          else Inr (map (xor (keymask k)) payload, None))"

definition ref_literal :: "bool \<Rightarrow> 64 word \<Rightarrow> bytes \<Rightarrow> error option \<Rightarrow> error + MessageDetails" where
  "ref_literal sgd signer bs ending =
     (case bs of
        tag # fmt # n # rest \<Rightarrow>
          if tag \<noteq> 0xCB \<or> length rest < unat n + 4
          then Inl (New ''openpgp: invalid data: literal packet'')
          else Inr \<lparr>IsSigned = sgd, SignedByKeyId = signer, SignatureError = None,
                    LiteralData =
                      \<lparr>IsBinary = (fmt = 0x62),
                       FileName = map (\<lambda>b. char_of (unat b)) (take (unat n) rest),
                       LitTime = bytes_time (take 4 (drop (unat n) rest))\<rparr>,
                    UnverifiedBody = (drop (unat n + 4) rest, ending)\<rparr>
      | _ \<Rightarrow> Inl (New ''openpgp: invalid data: literal packet''))"

definition ref_signed :: "bytes \<Rightarrow> error option \<Rightarrow> error + MessageDetails" where
  "ref_signed bs ending =
     (case bs of
        tag # i # rest \<Rightarrow>
          if tag = 0xC4 then ref_literal True (ucast i) rest ending
          else ref_literal False 0 bs ending
      | _ \<Rightarrow> ref_literal False 0 bs ending)"

definition ref_ReadMessage :: "Reader \<Rightarrow> Entity list \<Rightarrow> Config \<Rightarrow> error + MessageDetails" where
  "ref_ReadMessage r keyring config =
     (case fst r of
        tag # algo # rest \<Rightarrow>
          if tag = 0xC8 then ref_signed rest (snd r) else ref_signed (fst r) (snd r)
      | _ \<Rightarrow> ref_signed (fst r) (snd r))"

definition ref_verifyDetailsSignature :: "MessageDetails \<Rightarrow> KeyRing \<Rightarrow> error option" where
  "ref_verifyDetailsSignature md verifierKey =
     (if \<not> IsSigned md then Some (SignatureVerificationError SIGNATURE_NOT_SIGNED)
      else if Entity (unat (SignedByKeyId md)) \<notin> set (entities verifierKey)
      then Some (SignatureVerificationError SIGNATURE_NO_VERIFIER)
      else (case SignatureError md of
              Some e \<Rightarrow> Some (SignatureVerificationError SIGNATURE_FAILED)
            | None \<Rightarrow> None))"

definition ref_lib :: lib where
  "ref_lib =
     \<lparr>getTimeGenerator = 0,
      Cipher = (\<lambda>config. if DefaultCipher config = 0 then 7 else DefaultCipher config),
      Compression = DefaultCompressionAlgo,
      Next = ref_Next,
      Decrypt_se = ref_Decrypt,
      ReadMessage = ref_ReadMessage,
      processSignatureExpiration = (\<lambda>md verifyTime. SignatureError md),
      verifyDetailsSignature = ref_verifyDetailsSignature,
      getSigningEntity = (\<lambda>kr. case entities kr of
                                  [] \<Rightarrow> Inl (New ''gopenpgp: cannot sign message, unable to unlock signer key'')
                                | e # es \<Rightarrow> Inr e)\<rparr>"

section \<open>Plain decryption as the specification words it\<close>

text \<open>
  The specification's plain \<^verbatim>\<open>decrypt\<close>: the steps of the verifying decryptor
  without the two verification steps, "and status fixed to not signed". The
  status rides beside the message as the error result, as it does in
  \<^verbatim>\<open>DecryptAndVerify\<close>.
\<close>

definition Decrypt_spec ::
  "env \<Rightarrow> lib \<Rightarrow> SessionKey \<Rightarrow> bytes \<Rightarrow> PlainMessage option \<times> error option" where
  "Decrypt_spec E L sk dataPacket =
     (case decryptStreamWithSessionKey E L sk dataPacket None of
        Inl err \<Rightarrow> (None, Some err)
      | Inr md \<Rightarrow>
          (case ReadFrom (UnverifiedBody md) of
             Inl err \<Rightarrow> (None, Some (Wrap err ''gopenpgp: error in reading message body''))
           | Inr messageBuf \<Rightarrow>
               (Some \<lparr>Data = messageBuf,
                      TextType = (\<not> IsBinary (LiteralData md)),
                      Filename = FileName (LiteralData md),
                      Time = LitTime (LiteralData md)\<rparr>,
                Some (SignatureVerificationError SIGNATURE_NOT_SIGNED))))"

text \<open>Inputs for the reference instance.\<close>

definition ref_key :: SessionKey where
  "ref_key = \<lparr>Key = replicate 15 0x11 @ [0x03], Algo = ''aes128''\<rparr>"

definition ref_message :: PlainMessage where
  "ref_message = \<lparr>Data = [0x68, 0x69], TextType = True, Filename = ''a.txt'', Time = 0x01020304\<rparr>"

definition ref_ciphertext :: bytes where
  "ref_ciphertext =
     [210, 7, 217, 103, 23, 115, 60, 102, 106, 102, 19, 16, 17, 22, 122, 123]"

section \<open>What the file relies on in the libraries\<close>

text \<open>
  The file calls the libraries; what these do is theirs. Where a property of the
  file needs a property of a library, the latter is stated here, one layer at a
  time, as a predicate on the parameters.

  The configuration: \<^verbatim>\<open>config.Cipher()\<close> is the default cipher when that is a
  cipher of the registry, and \<^verbatim>\<open>config.Compression()\<close> is no compression when
  the default compression algorithm is left at its zero value.
\<close>

definition config_contract :: "env \<Rightarrow> lib \<Rightarrow> bool" where
  "config_contract E L \<longleftrightarrow>
     (\<forall>config. DefaultCipher config \<in> set (map snd (symKeyAlgos_entries E)) \<longrightarrow>
        Cipher L config = DefaultCipher config) \<and>
     (\<forall>config. DefaultCompressionAlgo config = 0 \<longrightarrow>
        Compression L config = CompressionNone E)"

text \<open>
  The cipher layer checks the key: \<^verbatim>\<open>SerializeSymmetricallyEncrypted\<close> and
  \<^verbatim>\<open>(*SymmetricallyEncrypted).Decrypt\<close> return an error when the key has not
  the size of the cipher.
\<close>

definition cipher_layer_checks_size :: "env \<Rightarrow> lib \<Rightarrow> ('w, 's) writers \<Rightarrow> bool" where
  "cipher_layer_checks_size E L W \<longleftrightarrow>
     (\<forall>w c k config s. KeySize E c \<noteq> length k \<longrightarrow>
        (\<exists>err s'. SerializeSymmetricallyEncrypted W w c k config s = (Inl err, s'))) \<and>
     (\<forall>contents c k. KeySize E c \<noteq> length k \<longrightarrow>
        (\<exists>err. Decrypt_se L contents c k = Inl err))"




text \<open>The literal packet of the reference library, and further inputs for it.\<close>

definition ref_lit :: "bool \<Rightarrow> string \<Rightarrow> 32 word \<Rightarrow> bytes \<Rightarrow> bytes" where
  "ref_lit b f t d = literal_header b f t @ d"




definition ref_encrypted_key :: EncryptedKey where
  "ref_encrypted_key = \<lparr>CipherFunc = 9, EncKey = replicate 32 0x11\<rparr>"

definition short_key :: SessionKey where
  "short_key = NewSessionKeyFromToken [1, 2, 3] ''aes256''"

definition ref_config :: Config where
  "ref_config =
     \<lparr>ConfigTime = 0, DefaultCipher = 7, DefaultCompressionAlgo = 2,
      CompressionConfig = Some \<lparr>Level = 6\<rparr>\<rparr>"

definition ref_signed_ciphertext :: bytes where
  "ref_signed_ciphertext =
     [210, 7, 218, 16, 214, 23, 217, 103, 23, 115, 60, 102, 106, 102, 19, 16, 17, 22, 122, 123]"

section \<open>The canonicalizer computes the canonical form\<close>

lemma split_on_LF_nonempty: "split_on_LF s \<noteq> []"
  by (induction s) (auto simp: split_on_LF_def)

lemma split_scan_foldr:
  "split_scan LF cur s = (rev cur @ hd (split_on_LF s)) # tl (split_on_LF s)"
proof (induction s arbitrary: cur)
  case Nil
  then show ?case by (simp add: split_on_LF_def)
next
  case (Cons c cs)
  show ?case
  proof (cases "c = LF")
    case True
    have "split_scan LF [] cs = split_on_LF cs"
      using Cons.IH [of "[]"] split_on_LF_nonempty [of cs] by simp
    with True show ?thesis by (simp add: split_on_LF_def)
  next
    case False
    then show ?thesis using Cons.IH [of "c # cur"] by (simp add: split_on_LF_def)
  qed
qed

lemma Split_spec: "Split s LF = split_on_LF s"
  using split_scan_foldr [of "[]" s] split_on_LF_nonempty [of s] by (simp add: Split_def)

lemma trim_from_spec:
  "n \<le> length s \<Longrightarrow>
   trim_from n s cutset = rev (dropWhile (\<lambda>c. c \<in> set cutset) (rev (take n s)))"
proof (induction n)
  case 0
  then show ?case by simp
next
  case (Suc n)
  then have "take (Suc n) s = take n s @ [s ! n]"
    by (simp add: take_Suc_conv_app_nth)
  with Suc show ?case by simp
qed

lemma TrimRight_spec: "TrimRight s [SP, TAB, CR] = strip_trailing s"
proof -
  have "(\<lambda>c. c \<in> set [SP, TAB, CR]) = (\<lambda>c. c = SP \<or> c = TAB \<or> c = CR)"
    by auto
  then show ?thesis
    using trim_from_spec [of "length s" s "[SP, TAB, CR]"]
    by (simp add: TrimRight_def strip_trailing_def)
qed

lemma trim_lines_spec:
  "trim_lines i ls = take i ls @ map (\<lambda>l. TrimRight l [SP, TAB, CR]) (drop i ls)"
proof (induction i ls rule: trim_lines.induct)
  case (1 i ls)
  show ?case
  proof (cases "i < length ls")
    case True
    let ?f = "\<lambda>l. TrimRight l [SP, TAB, CR]"
    have "trim_lines i ls = trim_lines (Suc i) (ls[i := ?f (ls ! i)])"
      using True by (subst trim_lines.simps) simp
    also have "\<dots> = take (Suc i) (ls[i := ?f (ls ! i)]) @ map ?f (drop (Suc i) (ls[i := ?f (ls ! i)]))"
      using "1.IH" [OF True] .
    also have "\<dots> = take i ls @ map ?f (drop i ls)"
      using True by (simp add: take_Suc_conv_app_nth Cons_nth_drop_Suc [symmetric])
    finally show ?thesis .
  next
    case False
    then show ?thesis by (subst trim_lines.simps) simp
  qed
qed

lemma join_rest_spec: "join_rest sep es = concat (map (\<lambda>l. sep @ l) es)"
  by (induction es) simp_all

lemma Join_spec: "Join ls [CR, LF] = rejoin_CRLF ls"
  by (cases ls) (simp_all add: rejoin_CRLF_def join_rest_spec)

text \<open>
  Claim C6. For every input text, \<^verbatim>\<open>CanonicalizeAndTrim\<close> is the specification's
  canonical form: the text split at its line feeds, each line without the
  spaces, tabs and carriage returns at its end, the lines joined with CR LF.
\<close>

theorem CanonicalizeAndTrim_refines_spec: "CanonicalizeAndTrim t = canonical_spec t"
proof -
  have "trim_lines 0 (Split t LF) = map strip_trailing (split_on_LF t)"
    by (simp add: trim_lines_spec TrimRight_spec Split_spec)
  then show ?thesis
    by (simp add: CanonicalizeAndTrim_def canonical_spec_def Join_spec)
qed

text \<open>
  The input of \<^verbatim>\<open>TestSignClearText\<close>, \<^verbatim>\<open>"  Signed message\n  \n  "\<close>: three
  lines, the last two of which are stripped to nothing.
\<close>

lemma CanonicalizeAndTrim_test_input:
  "CanonicalizeAndTrim (''  Signed message'' @ [LF] @ ''  '' @ [LF] @ ''  '')
     = ''  Signed message'' @ [CR, LF] @ [CR, LF]"
  by (simp add: CanonicalizeAndTrim_def Split_def TrimRight_def LF_def CR_def SP_def TAB_def
      trim_lines.simps)

section \<open>The registry and the generation of session keys\<close>

lemma symKeyAlgos_dom:
  "dom (symKeyAlgos E) = {ThreeDES E, TripleDES E, CAST5 E, AES128 E, AES192 E, AES256 E}"
  by (auto simp: symKeyAlgos_def symKeyAlgos_entries_def dom_def split: if_splits)

lemma symKeyAlgos_in_entries:
  "symKeyAlgos E k = Some v \<Longrightarrow> v \<in> set (map snd (symKeyAlgos_entries E))"
  unfolding symKeyAlgos_def by (drule map_of_SomeD) force

lemma ReadFull_length: "ReadFull r n = Inr bs \<Longrightarrow> length bs = n"
  by (auto simp: ReadFull_def split: if_splits option.splits)

lemma ReadFull_enough: "n \<le> length (fst r) \<Longrightarrow> ReadFull r n = Inr (take n (fst r))"
  by (simp add: ReadFull_def)

lemma RandomToken_length: "RandomToken E n = Inr bs \<Longrightarrow> length bs = n"
  by (auto simp: RandomToken_def dest: ReadFull_length split: sum.splits)

lemma RandomToken_enough:
  "n \<le> length (fst (Random E)) \<Longrightarrow> RandomToken E n = Inr (take n (fst (Random E)))"
  by (simp add: RandomToken_def ReadFull_enough)

lemma checkSize_None_iff:
  "checkSize E sk = None \<longleftrightarrow>
     (\<exists>cf. symKeyAlgos E (Algo sk) = Some cf \<and> KeySize E cf = length (Key sk))"
  by (auto simp: checkSize_def split: option.splits)

text \<open>
  Claim C4. The supported set is the six names of the registry. For a name
  outside it \<^verbatim>\<open>GenerateSessionKeyAlgo\<close> fails with the unknown-algorithm error
  and returns no key. For a name in it, when the random source delivers the
  bytes asked for, it returns a session key of that algorithm whose length is
  the registry's key size and on which \<^verbatim>\<open>checkSize\<close> succeeds; and whenever it
  returns a key at all, the key is such a key.
\<close>

theorem GenerateSessionKeyAlgo_correct:
  "dom (symKeyAlgos E) = {ThreeDES E, TripleDES E, CAST5 E, AES128 E, AES192 E, AES256 E} \<and>
   (algo \<notin> dom (symKeyAlgos E) \<longrightarrow>
      GenerateSessionKeyAlgo E algo =
        Inl (New ''gopenpgp: unknown symmetric key generation algorithm'')) \<and>
   (\<forall>cf. symKeyAlgos E algo = Some cf \<longrightarrow> KeySize E cf \<le> length (fst (Random E)) \<longrightarrow>
      (\<exists>sk. GenerateSessionKeyAlgo E algo = Inr sk \<and> Algo sk = algo \<and>
            length (Key sk) = KeySize E cf \<and> checkSize E sk = None)) \<and>
   (\<forall>sk. GenerateSessionKeyAlgo E algo = Inr sk \<longrightarrow>
      (\<exists>cf. symKeyAlgos E algo = Some cf \<and> length (Key sk) = KeySize E cf) \<and>
      Algo sk = algo \<and> checkSize E sk = None)"
proof (intro conjI allI impI)
  show "dom (symKeyAlgos E) = {ThreeDES E, TripleDES E, CAST5 E, AES128 E, AES192 E, AES256 E}"
    by (rule symKeyAlgos_dom)
next
  assume "algo \<notin> dom (symKeyAlgos E)"
  then have "symKeyAlgos E algo = None" by (simp add: domIff)
  then show "GenerateSessionKeyAlgo E algo =
      Inl (New ''gopenpgp: unknown symmetric key generation algorithm'')"
    by (simp add: GenerateSessionKeyAlgo_def)
next
  fix cf
  assume cf: "symKeyAlgos E algo = Some cf" and enough: "KeySize E cf \<le> length (fst (Random E))"
  let ?sk = "\<lparr>Key = take (KeySize E cf) (fst (Random E)), Algo = algo\<rparr>"
  have "GenerateSessionKeyAlgo E algo = Inr ?sk"
    using cf RandomToken_enough [OF enough] by (simp add: GenerateSessionKeyAlgo_def)
  moreover have "length (Key ?sk) = KeySize E cf" using enough by simp
  moreover have "checkSize E ?sk = None" using cf enough by (simp add: checkSize_def)
  ultimately show "\<exists>sk. GenerateSessionKeyAlgo E algo = Inr sk \<and> Algo sk = algo \<and>
            length (Key sk) = KeySize E cf \<and> checkSize E sk = None"
    by auto
next
  fix sk
  assume gen: "GenerateSessionKeyAlgo E algo = Inr sk"
  then obtain cf r where cf: "symKeyAlgos E algo = Some cf"
    and r: "RandomToken E (KeySize E cf) = Inr r" and sk: "sk = \<lparr>Key = r, Algo = algo\<rparr>"
    by (auto simp: GenerateSessionKeyAlgo_def split: option.splits sum.splits)
  have len: "length r = KeySize E cf" using r by (rule RandomToken_length)
  show "\<exists>cf. symKeyAlgos E algo = Some cf \<and> length (Key sk) = KeySize E cf"
    using cf len sk by simp
  show "Algo sk = algo" using sk by simp
  show "checkSize E sk = None" using cf len sk by (simp add: checkSize_def)
qed

lemma ref_symKeyAlgos_aes256: "symKeyAlgos ref_env ''aes256'' = Some 9"
  by (simp add: symKeyAlgos_def symKeyAlgos_entries_def ref_env_def)

lemma ref_symKeyAlgos_rot13: "''rot13'' \<notin> dom (symKeyAlgos ref_env)"
  by (simp add: symKeyAlgos_dom) (simp add: ref_env_def)

theorem GenerateSessionKeyAlgo_witness:
  "(\<exists>sk. GenerateSessionKeyAlgo ref_env ''aes256'' = Inr sk \<and> Algo sk = ''aes256'' \<and>
         length (Key sk) = 32 \<and> checkSize ref_env sk = None) \<and>
   GenerateSessionKeyAlgo ref_env ''rot13'' =
     Inl (New ''gopenpgp: unknown symmetric key generation algorithm'')"
proof -
  have size: "KeySize ref_env 9 = 32" by (simp add: ref_env_def ref_KeySize_def)
  have enough: "KeySize ref_env 9 \<le> length (fst (Random ref_env))"
    by (simp add: ref_env_def ref_KeySize_def)
  show ?thesis
    using GenerateSessionKeyAlgo_correct [of ref_env "''aes256''"]
      GenerateSessionKeyAlgo_correct [of ref_env "''rot13''"]
      ref_symKeyAlgos_aes256 ref_symKeyAlgos_rot13 enough size
    by (metis)
qed

section \<open>The reverse lookup\<close>

lemma getAlgo_loop_default:
  "\<forall>kv \<in> set ord. snd kv \<noteq> cipher \<Longrightarrow> getAlgo_loop algo ord cipher = algo"
  by (induction ord) auto

text \<open>
  Claim C9. For a cipher identifier that is the value of no entry of the
  registry, \<^verbatim>\<open>getAlgo\<close> returns the name of AES-256, in whatever order the loop
  visits the map. It is a total function to names: it has no error result.
\<close>

theorem getAlgo_unknown_cipher:
  assumes "range_order E ord"
    and "cipher \<notin> set (map snd (symKeyAlgos_entries E))"
  shows "getAlgo E ord cipher = AES256 E"
proof -
  have "\<forall>kv \<in> set ord. snd kv \<noteq> cipher"
  proof
    fix kv assume "kv \<in> set ord"
    with assms(1) have "symKeyAlgos E (fst kv) = Some (snd kv)"
      by (simp add: range_order_def list_all_iff)
    then have "snd kv \<in> set (map snd (symKeyAlgos_entries E))"
      by (rule symKeyAlgos_in_entries)
    with assms(2) show "snd kv \<noteq> cipher" by auto
  qed
  then show ?thesis by (simp add: getAlgo_def getAlgo_loop_default)
qed

theorem getAlgo_unknown_cipher_witness:
  "range_order ref_env (rev (symKeyAlgos_entries ref_env)) \<and>
   1 \<notin> set (map snd (symKeyAlgos_entries ref_env)) \<and>
   getAlgo ref_env (rev (symKeyAlgos_entries ref_env)) 1 = ''aes256''"
proof -
  have ro: "range_order ref_env (rev (symKeyAlgos_entries ref_env))"
    by (simp add: range_order_def symKeyAlgos_def symKeyAlgos_entries_def ref_env_def)
  have un: "1 \<notin> set (map snd (symKeyAlgos_entries ref_env))"
    by (simp add: symKeyAlgos_entries_def ref_env_def)
  have "AES256 ref_env = ''aes256''" by (simp add: ref_env_def)
  with getAlgo_unknown_cipher [OF ro un] ro un show ?thesis by simp
qed

section \<open>Runs of the reference instance\<close>

text \<open>
  The reference ciphertext is what \<^verbatim>\<open>Encrypt\<close> makes of the reference message
  under the reference key; decrypted with no key ring it gives the message and
  a nil error, and with a key ring the message and the status not-signed.
\<close>

lemma ref_Encrypt_value:
  "Encrypt ref_env ref_lib ref_writers ref_key ref_message ([], 0) = (Inr ref_ciphertext, (ref_ciphertext, 18))"
  by code_simp

lemma ref_Decrypt_value:
  "Decrypt ref_env ref_lib ref_key ref_ciphertext = (Some ref_message, None)"
  by code_simp

lemma ref_DecryptAndVerify_value:
  "DecryptAndVerify ref_env ref_lib ref_key ref_ciphertext (Some \<lparr>entities = [Entity 5]\<rparr>) 0
     = (Some ref_message, Some (SignatureVerificationError SIGNATURE_NOT_SIGNED))"
  by code_simp

lemma ref_Decrypt_spec_value:
  "Decrypt_spec ref_env ref_lib ref_key ref_ciphertext = (Some ref_message, Some (SignatureVerificationError SIGNATURE_NOT_SIGNED))"
  by code_simp

lemma ref_decryptStream_case:
  "(case decryptStreamWithSessionKey ref_env ref_lib ref_key ref_ciphertext
           (Some \<lparr>entities = [Entity 5]\<rparr>) of
      Inl err \<Rightarrow> False
    | Inr md \<Rightarrow> ReadFrom (UnverifiedBody md) = Inr [0x68, 0x69])"
  by code_simp

lemma ref_decryptStream_value:
  "\<exists>md. decryptStreamWithSessionKey ref_env ref_lib ref_key ref_ciphertext (Some \<lparr>entities = [Entity 5]\<rparr>) = Inr md
     \<and> ReadFrom (UnverifiedBody md) = Inr [0x68, 0x69]"
  using ref_decryptStream_case by (auto split: sum.splits)

section \<open>The two results of decryption\<close>

lemma DecryptAndVerify_decrypted:
  assumes "decryptStreamWithSessionKey E L sk dataPacket verifyKeyRing = Inr md"
    and "ReadFrom (UnverifiedBody md) = Inr body"
  shows "DecryptAndVerify E L sk dataPacket verifyKeyRing verifyTime =
           (Some \<lparr>Data = body,
                  TextType = (\<not> IsBinary (LiteralData md)),
                  Filename = FileName (LiteralData md),
                  Time = LitTime (LiteralData md)\<rparr>,
            case verifyKeyRing of
              None \<Rightarrow> None
            | Some kr \<Rightarrow>
                verifyDetailsSignature L
                  (md\<lparr>SignatureError := processSignatureExpiration L md verifyTime\<rparr>) kr)"
  using assms by (simp add: DecryptAndVerify_def Let_def split: option.splits)

lemma DecryptAndVerify_stream_failed:
  assumes "decryptStreamWithSessionKey E L sk dataPacket verifyKeyRing = Inl err"
  shows "DecryptAndVerify E L sk dataPacket verifyKeyRing verifyTime = (None, Some err)"
  using assms by (simp add: DecryptAndVerify_def)

lemma DecryptAndVerify_body_failed:
  assumes "decryptStreamWithSessionKey E L sk dataPacket verifyKeyRing = Inr md"
    and "ReadFrom (UnverifiedBody md) = Inl err"
  shows "DecryptAndVerify E L sk dataPacket verifyKeyRing verifyTime =
           (None, Some (Wrap err ''gopenpgp: error in reading message body''))"
  using assms by (simp add: DecryptAndVerify_def)

text \<open>
  Claim C2. When the decryption itself succeeds (the stream is decrypted and
  decoded and the body is read to its end), \<^verbatim>\<open>DecryptAndVerify\<close> returns the
  message, with the body as its data and the flag, file name and time of the
  literal data, and beside it the outcome of the verification, whatever that
  outcome is: nil when no key ring is given, else what
  \<^verbatim>\<open>verifyDetailsSignature\<close> returns, nil or not. When the decryption fails, at
  the stream or at the body, no message is returned and the error is.
\<close>

theorem DecryptAndVerify_two_results:
  "(\<forall>md body.
      decryptStreamWithSessionKey E L sk dataPacket verifyKeyRing = Inr md \<longrightarrow>
      ReadFrom (UnverifiedBody md) = Inr body \<longrightarrow>
      fst (DecryptAndVerify E L sk dataPacket verifyKeyRing verifyTime) =
        Some \<lparr>Data = body,
              TextType = (\<not> IsBinary (LiteralData md)),
              Filename = FileName (LiteralData md),
              Time = LitTime (LiteralData md)\<rparr> \<and>
      snd (DecryptAndVerify E L sk dataPacket verifyKeyRing verifyTime) =
        (case verifyKeyRing of
           None \<Rightarrow> None
         | Some kr \<Rightarrow>
             verifyDetailsSignature L
               (md\<lparr>SignatureError := processSignatureExpiration L md verifyTime\<rparr>) kr)) \<and>
   (\<forall>err. decryptStreamWithSessionKey E L sk dataPacket verifyKeyRing = Inl err \<longrightarrow>
      DecryptAndVerify E L sk dataPacket verifyKeyRing verifyTime = (None, Some err)) \<and>
   (\<forall>md err.
      decryptStreamWithSessionKey E L sk dataPacket verifyKeyRing = Inr md \<longrightarrow>
      ReadFrom (UnverifiedBody md) = Inl err \<longrightarrow>
      DecryptAndVerify E L sk dataPacket verifyKeyRing verifyTime =
        (None, Some (Wrap err ''gopenpgp: error in reading message body'')))"
  by (simp add: DecryptAndVerify_decrypted DecryptAndVerify_stream_failed
      DecryptAndVerify_body_failed)

theorem DecryptAndVerify_two_results_witness:
  "\<exists>md. decryptStreamWithSessionKey ref_env ref_lib ref_key ref_ciphertext
           (Some \<lparr>entities = [Entity 5]\<rparr>) = Inr md \<and>
        ReadFrom (UnverifiedBody md) = Inr [0x68, 0x69] \<and>
        fst (DecryptAndVerify ref_env ref_lib ref_key ref_ciphertext
               (Some \<lparr>entities = [Entity 5]\<rparr>) 0) =
          Some \<lparr>Data = [0x68, 0x69],
                TextType = (\<not> IsBinary (LiteralData md)),
                Filename = FileName (LiteralData md),
                Time = LitTime (LiteralData md)\<rparr> \<and>
        snd (DecryptAndVerify ref_env ref_lib ref_key ref_ciphertext
               (Some \<lparr>entities = [Entity 5]\<rparr>) 0) =
          Some (SignatureVerificationError SIGNATURE_NOT_SIGNED)"
proof -
  obtain md where md: "decryptStreamWithSessionKey ref_env ref_lib ref_key ref_ciphertext
           (Some \<lparr>entities = [Entity 5]\<rparr>) = Inr md"
    and body: "ReadFrom (UnverifiedBody md) = Inr [0x68, 0x69]"
    using ref_decryptStream_value by blast
  have "snd (DecryptAndVerify ref_env ref_lib ref_key ref_ciphertext
               (Some \<lparr>entities = [Entity 5]\<rparr>) 0) =
          Some (SignatureVerificationError SIGNATURE_NOT_SIGNED)"
    by (simp add: ref_DecryptAndVerify_value)
  with DecryptAndVerify_two_results [of ref_env ref_lib ref_key ref_ciphertext
      "Some \<lparr>entities = [Entity 5]\<rparr>" 0] md body
  show ?thesis by auto
qed

section \<open>The first packet\<close>

lemma decryptStream_other_packet:
  "Next L dataPacket = Inr (OtherPacket tag contents) \<Longrightarrow>
   decryptStreamWithSessionKey E L sk dataPacket verifyKeyRing =
     Inl (New ''gopenpgp: invalid packet type'')"
  by (simp add: decryptStreamWithSessionKey_def)

lemma decryptStream_success_symmetric:
  "decryptStreamWithSessionKey E L sk dataPacket verifyKeyRing = Inr md \<Longrightarrow>
   \<exists>contents. Next L dataPacket = Inr (SymmetricallyEncrypted contents)"
  by (auto simp: decryptStreamWithSessionKey_def split: sum.splits Packet.splits)

text \<open>
  Claim C5. If the first packet read from the input is not a symmetrically
  encrypted packet, \<^verbatim>\<open>DecryptAndVerify\<close> fails with the invalid-packet-type
  error and returns no message; and whenever it returns a message, the first
  packet was a symmetrically encrypted one.
\<close>

theorem first_packet_must_be_symmetric:
  "(\<forall>tag contents. Next L dataPacket = Inr (OtherPacket tag contents) \<longrightarrow>
      DecryptAndVerify E L sk dataPacket verifyKeyRing verifyTime =
        (None, Some (New ''gopenpgp: invalid packet type''))) \<and>
   (\<forall>message err. DecryptAndVerify E L sk dataPacket verifyKeyRing verifyTime = (Some message, err) \<longrightarrow>
      (\<exists>contents. Next L dataPacket = Inr (SymmetricallyEncrypted contents)))"
proof (intro conjI allI impI)
  fix tag contents
  assume "Next L dataPacket = Inr (OtherPacket tag contents)"
  then show "DecryptAndVerify E L sk dataPacket verifyKeyRing verifyTime =
        (None, Some (New ''gopenpgp: invalid packet type''))"
    by (simp add: decryptStream_other_packet DecryptAndVerify_stream_failed)
next
  fix message err
  assume ok: "DecryptAndVerify E L sk dataPacket verifyKeyRing verifyTime = (Some message, err)"
  then obtain md where "decryptStreamWithSessionKey E L sk dataPacket verifyKeyRing = Inr md"
    by (auto simp: DecryptAndVerify_def split: sum.splits)
  then show "\<exists>contents. Next L dataPacket = Inr (SymmetricallyEncrypted contents)"
    by (rule decryptStream_success_symmetric)
qed

theorem first_packet_must_be_symmetric_witness:
  "Next ref_lib [0xCB, 0x62, 0, 0, 0, 0, 0, 0x68] = Inr (OtherPacket 0xCB [0x62, 0, 0, 0, 0, 0, 0x68]) \<and>
   DecryptAndVerify ref_env ref_lib ref_key [0xCB, 0x62, 0, 0, 0, 0, 0, 0x68] None 0 =
     (None, Some (New ''gopenpgp: invalid packet type'')) \<and>
   DecryptAndVerify ref_env ref_lib ref_key ref_ciphertext None 0 = (Some ref_message, None) \<and>
   (\<exists>contents. Next ref_lib ref_ciphertext = Inr (SymmetricallyEncrypted contents))"
proof -
  have other: "Next ref_lib [0xCB, 0x62, 0, 0, 0, 0, 0, 0x68] = Inr (OtherPacket 0xCB [0x62, 0, 0, 0, 0, 0, 0x68])"
    by (simp add: ref_lib_def ref_Next_def)
  have ok: "DecryptAndVerify ref_env ref_lib ref_key ref_ciphertext None 0 = (Some ref_message, None)"
    using ref_Decrypt_value by (simp add: Decrypt_def)
  show ?thesis
    using first_packet_must_be_symmetric [of ref_lib "[0xCB, 0x62, 0, 0, 0, 0, 0, 0x68]" ref_env ref_key None 0]
      first_packet_must_be_symmetric [of ref_lib ref_ciphertext ref_env ref_key None 0]
      other ok
    by blast
qed

section \<open>Plain decryption\<close>

text \<open>
  Claim C7 as stated fails: on the reference ciphertext \<^verbatim>\<open>Decrypt\<close> returns the
  message with a nil error, where the specification's plain decrypt gives the
  status not-signed.
\<close>

theorem Decrypt_status_counterexample:
  "Decrypt ref_env ref_lib ref_key ref_ciphertext = (Some ref_message, None) \<and>
   Decrypt_spec ref_env ref_lib ref_key ref_ciphertext =
     (Some ref_message, Some (SignatureVerificationError SIGNATURE_NOT_SIGNED)) \<and>
   Decrypt ref_env ref_lib ref_key ref_ciphertext \<noteq> Decrypt_spec ref_env ref_lib ref_key ref_ciphertext"
  by (simp add: ref_Decrypt_value ref_Decrypt_spec_value)

lemma decryptStream_ignores_verification:
  "decryptStreamWithSessionKey E (L\<lparr>processSignatureExpiration := f, verifyDetailsSignature := g\<rparr>)
     sk dataPacket verifyKeyRing = decryptStreamWithSessionKey E L sk dataPacket verifyKeyRing"
  by (simp add: decryptStreamWithSessionKey_def split: sum.splits Packet.splits)

text \<open>
  Claim C7, amended. \<^verbatim>\<open>Decrypt\<close> returns what \<^verbatim>\<open>DecryptAndVerify\<close> returns
  with no key ring, whatever the verification time; the two verification
  functions have no part in its result; and its result is that of the
  specification's plain decrypt but for the status, which is nil whenever a
  message is returned.
\<close>

theorem Decrypt_is_DecryptAndVerify_unverified:
  "Decrypt E L sk dataPacket = DecryptAndVerify E L sk dataPacket None verifyTime \<and>
   Decrypt E (L\<lparr>processSignatureExpiration := f, verifyDetailsSignature := g\<rparr>) sk dataPacket =
     Decrypt E L sk dataPacket \<and>
   Decrypt E L sk dataPacket =
     (case Decrypt_spec E L sk dataPacket of
        (Some message, status) \<Rightarrow> (Some message, None)
      | (None, err) \<Rightarrow> (None, err))"
  by (simp add: Decrypt_def DecryptAndVerify_def Decrypt_spec_def
      decryptStream_ignores_verification split: sum.splits)

section \<open>The size of a session key\<close>

text \<open>
  Claim C3 as stated fails at the construction from a token: a token of three
  bytes with the name of AES-256 (whose keys have 32 bytes) becomes a session
  key, with no error, on which \<^verbatim>\<open>checkSize\<close> fails.
\<close>

theorem NewSessionKeyFromToken_unchecked_counterexample:
  "symKeyAlgos ref_env (Algo (NewSessionKeyFromToken [1, 2, 3] ''aes256'')) = Some 9 \<and>
   KeySize ref_env 9 = 32 \<and>
   length (Key (NewSessionKeyFromToken [1, 2, 3] ''aes256'')) = 3 \<and>
   checkSize ref_env (NewSessionKeyFromToken [1, 2, 3] ''aes256'') =
     Some (New ''wrong session key size'')"
  by (simp add: NewSessionKeyFromToken_def checkSize_def ref_symKeyAlgos_aes256)
     (simp add: ref_env_def ref_KeySize_def)

lemma newSessionKeyFromEncrypted_checked:
  "newSessionKeyFromEncrypted E ord ek = Inr sk \<Longrightarrow> checkSize E sk = None \<and> Key sk = EncKey ek"
  by (auto simp: newSessionKeyFromEncrypted_def Let_def split: if_splits option.splits)

lemma GenerateSessionKeyAlgo_checked:
  assumes "GenerateSessionKeyAlgo E algo = Inr sk"
  shows "checkSize E sk = None"
proof -
  from assms obtain cf r where cf: "symKeyAlgos E algo = Some cf"
    and r: "RandomToken E (KeySize E cf) = Inr r" and sk: "sk = \<lparr>Key = r, Algo = algo\<rparr>"
    by (auto simp: GenerateSessionKeyAlgo_def split: option.splits sum.splits)
  from r have "length r = KeySize E cf" by (rule RandomToken_length)
  with cf sk show ?thesis by (simp add: checkSize_def)
qed

lemma encryptWithSessionKey_refused:
  assumes contract: "cipher_layer_checks_size E L W"
    and wrong: "KeySize E (Cipher L config) \<noteq> length (Key sk)"
  shows "\<exists>err s'. encryptWithSessionKey E L W message sk signEntity config s = (Inl err, s')"
proof -
  obtain encBuf s0 where buf: "NewBuffer W s = (encBuf, s0)"
    by (cases "NewBuffer W s")
  from contract wrong obtain err s1 where
    "SerializeSymmetricallyEncrypted W encBuf (Cipher L config) (Key sk) config s0 = (Inl err, s1)"
    unfolding cipher_layer_checks_size_def by blast
  with buf show ?thesis
    by (simp add: encryptWithSessionKey_def encryptStreamWithSessionKey_def)
qed

lemma violation_cases:
  assumes "checkSize E sk \<noteq> None"
  shows "symKeyAlgos E (Algo sk) = None \<or>
         (\<exists>dc. symKeyAlgos E (Algo sk) = Some dc \<and> KeySize E dc \<noteq> length (Key sk))"
  using assms by (auto simp: checkSize_def split: option.splits if_splits)

lemma registry_cipher_of_config:
  assumes "config_contract E L" and "symKeyAlgos E name = Some dc" and "DefaultCipher config = dc"
  shows "Cipher L config = dc"
  using assms symKeyAlgos_in_entries [of E name dc]
  unfolding config_contract_def by blast

lemma Encrypt_enforces_size:
  assumes cfg: "config_contract E L" and contract: "cipher_layer_checks_size E L W"
    and bad: "checkSize E sk \<noteq> None"
  shows "\<exists>err s'. Encrypt E L W sk message s = (Inl err, s')"
proof -
  from violation_cases [OF bad] show ?thesis
  proof
    assume "symKeyAlgos E (Algo sk) = None"
    then show ?thesis by (simp add: Encrypt_def GetCipherFunc_def)
  next
    assume "\<exists>dc. symKeyAlgos E (Algo sk) = Some dc \<and> KeySize E dc \<noteq> length (Key sk)"
    then obtain dc where dc: "symKeyAlgos E (Algo sk) = Some dc"
      and wrong: "KeySize E dc \<noteq> length (Key sk)" by blast
    let ?config = "\<lparr>ConfigTime = getTimeGenerator L, DefaultCipher = dc,
                     DefaultCompressionAlgo = 0, CompressionConfig = None\<rparr>"
    have "Cipher L ?config = dc"
      using registry_cipher_of_config [OF cfg dc] by simp
    with wrong have "KeySize E (Cipher L ?config) \<noteq> length (Key sk)" by simp
    from encryptWithSessionKey_refused [OF contract this]
    show ?thesis using dc by (simp add: Encrypt_def GetCipherFunc_def)
  qed
qed

lemma EncryptAndSign_enforces_size:
  assumes cfg: "config_contract E L" and contract: "cipher_layer_checks_size E L W"
    and bad: "checkSize E sk \<noteq> None"
  shows "\<exists>err s'. EncryptAndSign E L W sk message signKeyRing s = (Inl err, s')"
proof -
  from violation_cases [OF bad] show ?thesis
  proof
    assume "symKeyAlgos E (Algo sk) = None"
    then show ?thesis by (simp add: EncryptAndSign_def GetCipherFunc_def)
  next
    assume "\<exists>dc. symKeyAlgos E (Algo sk) = Some dc \<and> KeySize E dc \<noteq> length (Key sk)"
    then obtain dc where dc: "symKeyAlgos E (Algo sk) = Some dc"
      and wrong: "KeySize E dc \<noteq> length (Key sk)" by blast
    let ?config = "\<lparr>ConfigTime = getTimeGenerator L, DefaultCipher = dc,
                     DefaultCompressionAlgo = 0, CompressionConfig = None\<rparr>"
    have "Cipher L ?config = dc"
      using registry_cipher_of_config [OF cfg dc] by simp
    with wrong have "KeySize E (Cipher L ?config) \<noteq> length (Key sk)" by simp
    from encryptWithSessionKey_refused [OF contract this]
    show ?thesis using dc
      by (cases "getSigningEntity L signKeyRing")
         (simp_all add: EncryptAndSign_def GetCipherFunc_def)
  qed
qed

lemma EncryptWithCompression_enforces_size:
  assumes cfg: "config_contract E L" and contract: "cipher_layer_checks_size E L W"
    and bad: "checkSize E sk \<noteq> None"
  shows "\<exists>err s'. EncryptWithCompression E L W sk message s = (Inl err, s')"
proof -
  from violation_cases [OF bad] show ?thesis
  proof
    assume "symKeyAlgos E (Algo sk) = None"
    then show ?thesis by (simp add: EncryptWithCompression_def GetCipherFunc_def)
  next
    assume "\<exists>dc. symKeyAlgos E (Algo sk) = Some dc \<and> KeySize E dc \<noteq> length (Key sk)"
    then obtain dc where dc: "symKeyAlgos E (Algo sk) = Some dc"
      and wrong: "KeySize E dc \<noteq> length (Key sk)" by blast
    let ?config = "\<lparr>ConfigTime = getTimeGenerator L, DefaultCipher = dc,
                     DefaultCompressionAlgo = DefaultCompression E,
                     CompressionConfig = Some \<lparr>Level = DefaultCompressionLevel E\<rparr>\<rparr>"
    have "Cipher L ?config = dc"
      using registry_cipher_of_config [OF cfg dc] by simp
    with wrong have "KeySize E (Cipher L ?config) \<noteq> length (Key sk)" by simp
    from encryptWithSessionKey_refused [OF contract this]
    show ?thesis using dc by (simp add: EncryptWithCompression_def GetCipherFunc_def)
  qed
qed

lemma DecryptAndVerify_enforces_size:
  assumes contract: "cipher_layer_checks_size E L W"
    and bad: "checkSize E sk \<noteq> None"
  shows "\<exists>err. DecryptAndVerify E L sk dataPacket verifyKeyRing verifyTime = (None, Some err)"
proof -
  have "\<exists>err. decryptStreamWithSessionKey E L sk dataPacket verifyKeyRing = Inl err"
  proof (cases "Next L dataPacket")
    case (Inl err)
    then show ?thesis by (simp add: decryptStreamWithSessionKey_def)
  next
    case (Inr p)
    show ?thesis
    proof (cases p)
      case (OtherPacket tag contents)
      with Inr show ?thesis by (simp add: decryptStreamWithSessionKey_def)
    next
      case (SymmetricallyEncrypted contents)
      from violation_cases [OF bad] show ?thesis
      proof
        assume "symKeyAlgos E (Algo sk) = None"
        with Inr SymmetricallyEncrypted show ?thesis
          by (simp add: decryptStreamWithSessionKey_def GetCipherFunc_def)
      next
        assume "\<exists>dc. symKeyAlgos E (Algo sk) = Some dc \<and> KeySize E dc \<noteq> length (Key sk)"
        then obtain dc where dc: "symKeyAlgos E (Algo sk) = Some dc"
          and wrong: "KeySize E dc \<noteq> length (Key sk)" by blast
        from contract wrong obtain err where "Decrypt_se L contents dc (Key sk) = Inl err"
          unfolding cipher_layer_checks_size_def by blast
        with Inr SymmetricallyEncrypted dc show ?thesis
          by (simp add: decryptStreamWithSessionKey_def GetCipherFunc_def)
      qed
    qed
  qed
  then show ?thesis by (auto simp: DecryptAndVerify_def)
qed

text \<open>
  Claim C3, amended. \<^verbatim>\<open>checkSize\<close> succeeds exactly when the key's length is
  the registry's key size of its algorithm. At construction the invariant is
  enforced for a key made from an encrypted-key packet, which has passed
  \<^verbatim>\<open>checkSize\<close> with the packet's bytes as they are, and holds for a generated
  key; \<^verbatim>\<open>NewSessionKeyFromToken\<close> checks nothing and keeps the token's bytes as
  they are. Before use it is enforced in every encrypt and every decrypt call:
  with a key that violates it, \<^verbatim>\<open>Encrypt\<close>, \<^verbatim>\<open>EncryptAndSign\<close>,
  \<^verbatim>\<open>EncryptWithCompression\<close>, \<^verbatim>\<open>Decrypt\<close> and \<^verbatim>\<open>DecryptAndVerify\<close> return an
  error and no output, whatever the message or the input. The file makes the
  check of the algorithm itself and leaves the check of the length to the cipher
  layer it hands the key to; the theorem holds for every library whose
  configuration gives back a registry cipher set as default and whose cipher
  layer refuses a key of the wrong size.
\<close>

theorem session_key_size_enforced:
  assumes "config_contract E L" and "cipher_layer_checks_size E L W"
  shows
   "(checkSize E sk = None \<longleftrightarrow>
       (\<exists>cf. symKeyAlgos E (Algo sk) = Some cf \<and> KeySize E cf = length (Key sk))) \<and>
    (\<forall>sk'. newSessionKeyFromEncrypted E ord ek = Inr sk' \<longrightarrow>
       checkSize E sk' = None \<and> Key sk' = EncKey ek) \<and>
    (\<forall>sk'. GenerateSessionKeyAlgo E algo = Inr sk' \<longrightarrow> checkSize E sk' = None) \<and>
    NewSessionKeyFromToken token name = \<lparr>Key = token, Algo = name\<rparr> \<and>
    (checkSize E sk \<noteq> None \<longrightarrow>
       (\<exists>err s'. Encrypt E L W sk message s = (Inl err, s')) \<and>
       (\<exists>err s'. EncryptAndSign E L W sk message signKeyRing s = (Inl err, s')) \<and>
       (\<exists>err s'. EncryptWithCompression E L W sk message s = (Inl err, s')) \<and>
       (\<exists>err. Decrypt E L sk dataPacket = (None, Some err)) \<and>
       (\<exists>err. DecryptAndVerify E L sk dataPacket verifyKeyRing verifyTime = (None, Some err)))"
proof (intro conjI allI impI)
  show "checkSize E sk = None \<longleftrightarrow>
       (\<exists>cf. symKeyAlgos E (Algo sk) = Some cf \<and> KeySize E cf = length (Key sk))"
    by (rule checkSize_None_iff)
next
  fix sk' assume "newSessionKeyFromEncrypted E ord ek = Inr sk'"
  then show "checkSize E sk' = None" and "Key sk' = EncKey ek"
    by (simp_all add: newSessionKeyFromEncrypted_checked)
next
  fix sk' assume "GenerateSessionKeyAlgo E algo = Inr sk'"
  then show "checkSize E sk' = None" by (rule GenerateSessionKeyAlgo_checked)
next
  show "NewSessionKeyFromToken token name = \<lparr>Key = token, Algo = name\<rparr>"
    by (simp add: NewSessionKeyFromToken_def)
next
  assume bad: "checkSize E sk \<noteq> None"
  show "\<exists>err s'. Encrypt E L W sk message s = (Inl err, s')"
    using assms bad by (rule Encrypt_enforces_size)
  show "\<exists>err s'. EncryptAndSign E L W sk message signKeyRing s = (Inl err, s')"
    using assms bad by (rule EncryptAndSign_enforces_size)
  show "\<exists>err s'. EncryptWithCompression E L W sk message s = (Inl err, s')"
    using assms bad by (rule EncryptWithCompression_enforces_size)
  show "\<exists>err. Decrypt E L sk dataPacket = (None, Some err)"
    unfolding Decrypt_def using assms(2) bad by (rule DecryptAndVerify_enforces_size)
  show "\<exists>err. DecryptAndVerify E L sk dataPacket verifyKeyRing verifyTime = (None, Some err)"
    using assms(2) bad by (rule DecryptAndVerify_enforces_size)
qed

lemma ref_registry_ciphers: "set (map snd (symKeyAlgos_entries ref_env)) = {2, 3, 7, 8, 9}"
  by (auto simp: symKeyAlgos_entries_def ref_env_def)

lemma ref_config_contract: "config_contract ref_env ref_lib"
  unfolding config_contract_def ref_registry_ciphers
  by (auto simp: ref_lib_def ref_env_def)

lemma ref_cipher_layer_checks_size: "cipher_layer_checks_size ref_env ref_lib ref_writers"
  unfolding cipher_layer_checks_size_def
  by (simp add: ref_env_def ref_lib_def ref_writers_def ref_Decrypt_def split: list.splits)

lemma ref_encrypted_key_accepted:
  "newSessionKeyFromEncrypted ref_env (rev (symKeyAlgos_entries ref_env)) ref_encrypted_key =
     Inr \<lparr>Key = replicate 32 0x11, Algo = ''aes256''\<rparr>"
  by code_simp

lemma ref_encrypted_key_refused:
  "newSessionKeyFromEncrypted ref_env (rev (symKeyAlgos_entries ref_env))
     \<lparr>CipherFunc = 9, EncKey = [1, 2, 3]\<rparr> =
     Inl (Wrap (New ''wrong session key size'') ''gopenpgp: unable to decrypt session key'')"
  by code_simp

lemma ref_short_key_violates: "checkSize ref_env short_key = Some (New ''wrong session key size'')"
  by code_simp

theorem session_key_size_enforced_witness:
  "config_contract ref_env ref_lib \<and>
   cipher_layer_checks_size ref_env ref_lib ref_writers \<and>
   newSessionKeyFromEncrypted ref_env (rev (symKeyAlgos_entries ref_env)) ref_encrypted_key =
     Inr \<lparr>Key = replicate 32 0x11, Algo = ''aes256''\<rparr> \<and>
   checkSize ref_env \<lparr>Key = replicate 32 0x11, Algo = ''aes256''\<rparr> = None \<and>
   checkSize ref_env short_key \<noteq> None \<and>
   (\<exists>err s'. Encrypt ref_env ref_lib ref_writers short_key ref_message ([], 0) = (Inl err, s')) \<and>
   (\<exists>err. Decrypt ref_env ref_lib short_key ref_ciphertext = (None, Some err))"
proof -
  note t = session_key_size_enforced [OF ref_config_contract ref_cipher_layer_checks_size,
      of short_key "rev (symKeyAlgos_entries ref_env)" ref_encrypted_key "''aes256''"
         "[1, 2, 3]" "''aes256''" ref_message "([], 0)" "\<lparr>entities = []\<rparr>" ref_ciphertext None 0]
  have bad: "checkSize ref_env short_key \<noteq> None"
    by (simp add: ref_short_key_violates)
  from t ref_encrypted_key_accepted
  have ok: "checkSize ref_env \<lparr>Key = replicate 32 0x11, Algo = ''aes256''\<rparr> = None"
    by blast
  from t bad
  have enc: "\<exists>err s'. Encrypt ref_env ref_lib ref_writers short_key ref_message ([], 0) = (Inl err, s')"
    and dec: "\<exists>err. Decrypt ref_env ref_lib short_key ref_ciphertext = (None, Some err)"
    by blast+
  from ref_config_contract ref_cipher_layer_checks_size ref_encrypted_key_accepted ok bad enc dec
  show ?thesis by blast
qed

section \<open>The chain of writers\<close>

lemma encryptStream_success:
  "encryptStreamWithSessionKey E L W isBinary filename modTime w sk signEntity config s
             = (Inr (ew, sw), s3) \<longleftrightarrow>
   (\<exists>w1 s1 w2 s2.
     SerializeSymmetricallyEncrypted W w (Cipher L config) (Key sk) config s = (Inr w1, s1) \<and>
     (if Compression L config \<noteq> CompressionNone E
      then SerializeCompressed W w1 (Compression L config) (CompressionConfig config) s1 = (Inr w2, s2)
      else w2 = w1 \<and> s2 = s1) \<and>
     (case signEntity of
        None \<Rightarrow> SerializeLiteral W w2 isBinary filename modTime s2 = (Inr ew, s3) \<and> sw = None
      | Some ent \<Rightarrow>
          ew = w2 \<and>
          (\<exists>x. sw = Some x \<and>
             Sign W w2 ent \<lparr>HintIsBinary = isBinary, HintFileName = filename,
                            ModTime = uint modTime\<rparr> config s2 = (Inr x, s3))))"
  unfolding encryptStreamWithSessionKey_def Let_def
  by (auto split: prod.splits sum.splits if_splits option.splits)

lemma encryptWithSessionKey_write_unsigned:
  "encryptWithSessionKey_write W message None ew sw s = (r, s1) \<longleftrightarrow>
     (\<exists>err. Write W ew (GetBinary message) s = (err, s1) \<and> r = Inr err)"
  unfolding encryptWithSessionKey_write_def
  by (auto split: prod.splits)

lemma encryptWithSessionKey_write_signed:
  "encryptWithSessionKey_write W message (Some ent) ew (Some signer) s = (Inr r, s2) \<longleftrightarrow>
     (\<exists>s1. Write W signer (GetBinary message) s = (None, s1) \<and>
           Close W signer s1 = (None, s2) \<and> r = None)"
  unfolding encryptWithSessionKey_write_def
  by (auto split: prod.splits option.splits)

text \<open>
  Claim C8. A call of \<^verbatim>\<open>encryptWithSessionKey\<close> succeeds exactly when these
  calls of the library succeed, in this order, each writer made over the one
  before it: the symmetric-encryption writer over the new buffer, with the
  configuration's cipher and the session key; if the configuration asks for
  compression, the compression writer over the encryption writer; then, with no
  signing entity, the literal-data writer over that, with the message's flag,
  file name and time, to which the message's bytes are written and which is
  closed; or, with a signing entity, the signer over it, given the same flag,
  file name and time as hints for the literal data it writes, to which the
  message's bytes are written and which is closed before the writer under it
  is. So what the signer is given to sign is the message's own bytes and its
  literal header; the compression and encryption writers lie under the signer
  and receive only what it writes. The result is the buffer's bytes.
\<close>

theorem writer_chain_layering:
  "encryptWithSessionKey E L W message sk signEntity config s = (Inr out, s') \<longleftrightarrow>
   (\<exists>encBuf s0 w1 s1 w2 s2.
     NewBuffer W s = (encBuf, s0) \<and>
     SerializeSymmetricallyEncrypted W encBuf (Cipher L config) (Key sk) config s0 = (Inr w1, s1) \<and>
     (if Compression L config \<noteq> CompressionNone E
      then SerializeCompressed W w1 (Compression L config) (CompressionConfig config) s1 = (Inr w2, s2)
      else w2 = w1 \<and> s2 = s1) \<and>
     (case signEntity of
        None \<Rightarrow>
          (\<exists>literal s3 s4.
             SerializeLiteral W w2 (PlainMessage_IsBinary message) (Filename message)
               (Time message) s2 = (Inr literal, s3) \<and>
             Write W literal (GetBinary message) s3 = (None, s4) \<and>
             Close W literal s4 = (None, s'))
      | Some ent \<Rightarrow>
          (\<exists>signer s3 s4 s5.
             Sign W w2 ent
               \<lparr>HintIsBinary = PlainMessage_IsBinary message, HintFileName = Filename message,
                 ModTime = uint (Time message)\<rparr> config s2 = (Inr signer, s3) \<and>
             Write W signer (GetBinary message) s3 = (None, s4) \<and>
             Close W signer s4 = (None, s5) \<and>
             Close W w2 s5 = (None, s'))) \<and>
     out = BufferBytes W encBuf s')"
  (is "?lhs \<longleftrightarrow> ?rhs")
proof
  assume ?lhs
  then obtain encBuf s0 ew sw s3 r s4 where
    buf: "NewBuffer W s = (encBuf, s0)"
    and str: "encryptStreamWithSessionKey E L W (PlainMessage_IsBinary message)
                  (Filename message) (Time message) encBuf sk signEntity config s0 = (Inr (ew, sw), s3)"
    and wr: "encryptWithSessionKey_write W message signEntity ew sw s3 = (Inr None, s4)"
    and cl: "Close W ew s4 = (None, s')"
    and out: "out = BufferBytes W encBuf s'"
    unfolding encryptWithSessionKey_def
    by (auto split: prod.splits sum.splits option.splits)
  from str obtain w1 s1 w2 s2 where
    sym: "SerializeSymmetricallyEncrypted W encBuf (Cipher L config) (Key sk) config s0 = (Inr w1, s1)"
    and comp: "if Compression L config \<noteq> CompressionNone E
      then SerializeCompressed W w1 (Compression L config) (CompressionConfig config) s1 = (Inr w2, s2)
      else w2 = w1 \<and> s2 = s1"
    and inner: "case signEntity of
        None \<Rightarrow> SerializeLiteral W w2 (PlainMessage_IsBinary message) (Filename message)
                   (Time message) s2 = (Inr ew, s3) \<and> sw = None
      | Some ent \<Rightarrow>
          ew = w2 \<and>
          (\<exists>x. sw = Some x \<and>
             Sign W w2 ent \<lparr>HintIsBinary = PlainMessage_IsBinary message,
                            HintFileName = Filename message,
                            ModTime = uint (Time message)\<rparr> config s2 = (Inr x, s3))"
    unfolding encryptStream_success by blast
  show ?rhs
  proof (cases signEntity)
    case None
    with inner wr cl have "\<exists>literal s3 s4.
             SerializeLiteral W w2 (PlainMessage_IsBinary message) (Filename message)
               (Time message) s2 = (Inr literal, s3) \<and>
             Write W literal (GetBinary message) s3 = (None, s4) \<and>
             Close W literal s4 = (None, s')"
      by (auto simp: encryptWithSessionKey_write_unsigned)
    then have "case signEntity of
        None \<Rightarrow>
          (\<exists>literal s3 s4.
             SerializeLiteral W w2 (PlainMessage_IsBinary message) (Filename message)
               (Time message) s2 = (Inr literal, s3) \<and>
             Write W literal (GetBinary message) s3 = (None, s4) \<and>
             Close W literal s4 = (None, s'))
      | Some ent \<Rightarrow>
          (\<exists>signer s3 s4 s5.
             Sign W w2 ent
               \<lparr>HintIsBinary = PlainMessage_IsBinary message, HintFileName = Filename message,
                 ModTime = uint (Time message)\<rparr> config s2 = (Inr signer, s3) \<and>
             Write W signer (GetBinary message) s3 = (None, s4) \<and>
             Close W signer s4 = (None, s5) \<and>
             Close W w2 s5 = (None, s'))"
      using None by simp
    then show ?thesis
      by (intro exI conjI) (rule buf, rule sym, rule comp, assumption, rule out)
  next
    case (Some ent)
    with inner wr cl have "\<exists>signer s3 s4 s5.
             Sign W w2 ent
               \<lparr>HintIsBinary = PlainMessage_IsBinary message, HintFileName = Filename message,
                 ModTime = uint (Time message)\<rparr> config s2 = (Inr signer, s3) \<and>
             Write W signer (GetBinary message) s3 = (None, s4) \<and>
             Close W signer s4 = (None, s5) \<and>
             Close W w2 s5 = (None, s')"
      by (auto simp: encryptWithSessionKey_write_signed)
    then have "case signEntity of
        None \<Rightarrow>
          (\<exists>literal s3 s4.
             SerializeLiteral W w2 (PlainMessage_IsBinary message) (Filename message)
               (Time message) s2 = (Inr literal, s3) \<and>
             Write W literal (GetBinary message) s3 = (None, s4) \<and>
             Close W literal s4 = (None, s'))
      | Some ent \<Rightarrow>
          (\<exists>signer s3 s4 s5.
             Sign W w2 ent
               \<lparr>HintIsBinary = PlainMessage_IsBinary message, HintFileName = Filename message,
                 ModTime = uint (Time message)\<rparr> config s2 = (Inr signer, s3) \<and>
             Write W signer (GetBinary message) s3 = (None, s4) \<and>
             Close W signer s4 = (None, s5) \<and>
             Close W w2 s5 = (None, s'))"
      using Some by simp
    then show ?thesis
      by (intro exI conjI) (rule buf, rule sym, rule comp, assumption, rule out)
  qed
next
  assume ?rhs
  then obtain encBuf s0 w1 s1 w2 s2 where
    buf: "NewBuffer W s = (encBuf, s0)"
    and sym: "SerializeSymmetricallyEncrypted W encBuf (Cipher L config) (Key sk) config s0 = (Inr w1, s1)"
    and comp: "if Compression L config \<noteq> CompressionNone E
      then SerializeCompressed W w1 (Compression L config) (CompressionConfig config) s1 = (Inr w2, s2)
      else w2 = w1 \<and> s2 = s1"
    and inner: "case signEntity of
        None \<Rightarrow>
          (\<exists>literal s3 s4.
             SerializeLiteral W w2 (PlainMessage_IsBinary message) (Filename message)
               (Time message) s2 = (Inr literal, s3) \<and>
             Write W literal (GetBinary message) s3 = (None, s4) \<and>
             Close W literal s4 = (None, s'))
      | Some ent \<Rightarrow>
          (\<exists>signer s3 s4 s5.
             Sign W w2 ent
               \<lparr>HintIsBinary = PlainMessage_IsBinary message, HintFileName = Filename message,
                 ModTime = uint (Time message)\<rparr> config s2 = (Inr signer, s3) \<and>
             Write W signer (GetBinary message) s3 = (None, s4) \<and>
             Close W signer s4 = (None, s5) \<and>
             Close W w2 s5 = (None, s'))"
    and out: "out = BufferBytes W encBuf s'"
    by blast
  show ?lhs
  proof (cases signEntity)
    case None
    with inner obtain literal s3 s4 where
      lit: "SerializeLiteral W w2 (PlainMessage_IsBinary message) (Filename message)
               (Time message) s2 = (Inr literal, s3)"
      and wr: "Write W literal (GetBinary message) s3 = (None, s4)"
      and cl: "Close W literal s4 = (None, s')"
      by auto
    have "encryptStreamWithSessionKey E L W (PlainMessage_IsBinary message)
                  (Filename message) (Time message) encBuf sk signEntity config s0
            = (Inr (literal, None), s3)"
      unfolding encryptStream_success
      by (intro exI conjI) (rule sym, rule comp, simp add: None lit)
    moreover have "encryptWithSessionKey_write W message signEntity literal None s3 = (Inr None, s4)"
      using None wr by (simp add: encryptWithSessionKey_write_unsigned)
    ultimately show ?thesis
      using buf cl out by (simp add: encryptWithSessionKey_def)
  next
    case (Some ent)
    with inner obtain signer s3 s4 s5 where
      sg: "Sign W w2 ent
               \<lparr>HintIsBinary = PlainMessage_IsBinary message, HintFileName = Filename message,
                 ModTime = uint (Time message)\<rparr> config s2 = (Inr signer, s3)"
      and wr: "Write W signer (GetBinary message) s3 = (None, s4)"
      and cs: "Close W signer s4 = (None, s5)"
      and cl: "Close W w2 s5 = (None, s')"
      by auto
    have "encryptStreamWithSessionKey E L W (PlainMessage_IsBinary message)
                  (Filename message) (Time message) encBuf sk signEntity config s0
            = (Inr (w2, Some signer), s3)"
      unfolding encryptStream_success
      by (intro exI conjI) (rule sym, rule comp, simp add: Some sg)
    moreover have "encryptWithSessionKey_write W message signEntity w2 (Some signer) s3 = (Inr None, s5)"
      using Some wr cs by (simp add: encryptWithSessionKey_write_signed)
    ultimately show ?thesis
      using buf cl out by (simp add: encryptWithSessionKey_def)
  qed
qed

lemma ref_signed_run:
  "encryptWithSessionKey ref_env ref_lib ref_writers ref_message ref_key (Some (Entity 5))
     ref_config ([], 0) = (Inr ref_signed_ciphertext, (ref_signed_ciphertext, 18))"
  by code_simp

theorem writer_chain_layering_witness:
  "encryptWithSessionKey ref_env ref_lib ref_writers ref_message ref_key (Some (Entity 5))
     ref_config ([], 0) = (Inr ref_signed_ciphertext, (ref_signed_ciphertext, 18)) \<and>
   (\<exists>encBuf s0 w1 s1 w2 s2.
     NewBuffer ref_writers ([], 0) = (encBuf, s0) \<and>
     SerializeSymmetricallyEncrypted ref_writers encBuf (Cipher ref_lib ref_config) (Key ref_key)
       ref_config s0 = (Inr w1, s1) \<and>
     (if Compression ref_lib ref_config \<noteq> CompressionNone ref_env
      then SerializeCompressed ref_writers w1 (Compression ref_lib ref_config)
             (CompressionConfig ref_config) s1 = (Inr w2, s2)
      else w2 = w1 \<and> s2 = s1) \<and>
     (case Some (Entity 5) of
        None \<Rightarrow>
          (\<exists>literal s3 s4.
             SerializeLiteral ref_writers w2 (PlainMessage_IsBinary ref_message)
               (Filename ref_message) (Time ref_message) s2 = (Inr literal, s3) \<and>
             Write ref_writers literal (GetBinary ref_message) s3 = (None, s4) \<and>
             Close ref_writers literal s4 = (None, (ref_signed_ciphertext, 18)))
      | Some ent \<Rightarrow>
          (\<exists>signer s3 s4 s5.
             Sign ref_writers w2 ent
               \<lparr>HintIsBinary = PlainMessage_IsBinary ref_message,
                 HintFileName = Filename ref_message,
                 ModTime = uint (Time ref_message)\<rparr> ref_config s2 = (Inr signer, s3) \<and>
             Write ref_writers signer (GetBinary ref_message) s3 = (None, s4) \<and>
             Close ref_writers signer s4 = (None, s5) \<and>
             Close ref_writers w2 s5 = (None, (ref_signed_ciphertext, 18)))) \<and>
     ref_signed_ciphertext = BufferBytes ref_writers encBuf (ref_signed_ciphertext, 18))"
  using ref_signed_run iffD1 [OF writer_chain_layering ref_signed_run] by (rule conjI)

section \<open>The round trip\<close>

text \<open>
  First the reference library: the time and the file name survive their
  encoding, the mask is its own inverse, and so the library meets the contracts
  of the cipher layer and of the literal layer. Its literal packet holds the
  first 255 bytes of a file name.
\<close>

lemma bytes_time_time_bytes: "bytes_time (time_bytes t) = t"
  unfolding bytes_time_def time_bytes_def
proof (rule bit_word_eqI)
  fix n :: nat
  assume n: "n < LENGTH(32)"
  consider "n < 8" | "8 \<le> n" "n < 16" | "16 \<le> n" "n < 24" | "24 \<le> n" "n < 32"
    using n by fastforce
  then show "bit (or (push_bit 24 (ucast ([ucast (drop_bit 24 t), ucast (drop_bit 16 t), ucast (drop_bit 8 t), ucast t :: byte] ! 0)))
              (or (push_bit 16 (ucast ([ucast (drop_bit 24 t), ucast (drop_bit 16 t), ucast (drop_bit 8 t), ucast t :: byte] ! 1)))
              (or (push_bit 8 (ucast ([ucast (drop_bit 24 t), ucast (drop_bit 16 t), ucast (drop_bit 8 t), ucast t :: byte] ! 2)))
                  (ucast ([ucast (drop_bit 24 t), ucast (drop_bit 16 t), ucast (drop_bit 8 t), ucast t :: byte] ! 3)))) :: 32 word) n
             = bit t n"
  proof cases
    case 1
    then show ?thesis by (simp add: bit_simps)
  next
    case 2
    then show ?thesis by (auto simp add: bit_simps)
  next
    case 3
    then show ?thesis by (auto simp add: bit_simps)
  next
    case 4
    then show ?thesis by (auto simp add: bit_simps)
  qed
qed

lemma length_time_bytes: "length (time_bytes t) = 4"
  by (simp add: time_bytes_def)

lemma char_roundtrip: "char_of (unat (of_char c :: 8 word)) = c"
proof -
  have "unat (of_char c :: 8 word) = unat (of_nat (of_char c) :: 8 word)"
    by (simp only: of_nat_of_char)
  also have "\<dots> = of_char c mod 256"
    by (simp only: unat_of_nat) simp
  also have "\<dots> = of_char c"
    by simp
  finally show ?thesis by simp
qed

lemma filename_roundtrip:
  "map ((\<lambda>b. char_of (unat b)) \<circ> (of_char :: char \<Rightarrow> byte)) f = f"
  by (induction f) (simp_all add: char_roundtrip)

lemma xor_mask_twice: "map (xor m \<circ> xor (m::byte)) xs = xs"
  by (induction xs) (simp_all add: xor.assoc [symmetric])

lemma unat_length_byte: "n \<le> 255 \<Longrightarrow> unat (of_nat n :: byte) = n"
  by (simp add: unat_of_nat)

lemma ref_literal_lit:
  "ref_literal sgd signer (ref_lit b f t d) ending =
     Inr \<lparr>IsSigned = sgd, SignedByKeyId = signer, SignatureError = None,
          LiteralData = \<lparr>IsBinary = b, FileName = take 255 f, LitTime = t\<rparr>,
          UnverifiedBody = (d, ending)\<rparr>"
proof -
  have len: "length (take 255 f) \<le> 255" by simp
  have n: "unat (of_nat (length (take 255 f)) :: byte) = length (take 255 f)"
    using len by (rule unat_length_byte)
  show ?thesis
    unfolding ref_literal_def ref_lit_def literal_header_def
    by (simp add: n length_time_bytes filename_roundtrip bytes_time_time_bytes del: length_take)
qed

lemma ref_ReadMessage_lit:
  "ref_ReadMessage (ref_lit b f t d, ending) keyring config =
     Inr \<lparr>IsSigned = False, SignedByKeyId = 0, SignatureError = None,
          LiteralData = \<lparr>IsBinary = b, FileName = take 255 f, LitTime = t\<rparr>,
          UnverifiedBody = (d, ending)\<rparr>"
proof -
  have "ref_ReadMessage (ref_lit b f t d, ending) keyring config =
      ref_literal False 0 (ref_lit b f t d) ending"
    by (simp add: ref_ReadMessage_def ref_signed_def ref_lit_def literal_header_def)
  then show ?thesis by (simp add: ref_literal_lit)
qed






text \<open>
  What \<^verbatim>\<open>Encrypt\<close> and \<^verbatim>\<open>Decrypt\<close> compute with the reference library, for
  every valid key and every message: the ciphertext is the symmetric packet
  around the literal packet, and the message that comes back has the first 255
  bytes of the file name.
\<close>

lemma ref_valid_cipher:
  assumes "symKeyAlgos ref_env (Algo sk) = Some c"
  shows "Cipher ref_lib \<lparr>ConfigTime = getTimeGenerator ref_lib, DefaultCipher = c,
                          DefaultCompressionAlgo = 0, CompressionConfig = None\<rparr> = c"
  using registry_cipher_of_config [OF ref_config_contract assms] by simp

lemma ref_Encrypt_bytes:
  assumes algo: "symKeyAlgos ref_env (Algo sk) = Some c"
    and sz: "KeySize ref_env c = length (Key sk)"
  shows "fst (Encrypt ref_env ref_lib ref_writers sk P s) =
           Inr ([0xD2, c] @ map (xor (keymask (Key sk)))
                  (ref_lit (\<not> TextType P) (Filename P) (Time P) (Data P)))"
proof -
  have ks: "ref_KeySize c = length (Key sk)"
    using sz by (simp add: ref_env_def)
  have nc: "Compression ref_lib \<lparr>ConfigTime = getTimeGenerator ref_lib, DefaultCipher = c,
                          DefaultCompressionAlgo = 0, CompressionConfig = None\<rparr>
              = CompressionNone ref_env"
    by (simp add: ref_lib_def ref_env_def)
  show ?thesis
    using algo ref_valid_cipher [OF algo] nc ks
    by (simp add: Encrypt_def GetCipherFunc_def encryptWithSessionKey_def
        encryptStreamWithSessionKey_def encryptWithSessionKey_write_def
        PlainMessage_IsBinary_def GetBinary_def ref_writers_def emit_def ref_lit_def)
qed

lemma ref_Decrypt_bytes:
  assumes algo: "symKeyAlgos ref_env (Algo sk) = Some c"
    and sz: "KeySize ref_env c = length (Key sk)"
  shows "Decrypt ref_env ref_lib sk ([0xD2, c] @ map (xor (keymask (Key sk))) (ref_lit b f t d)) =
           (Some \<lparr>Data = d, TextType = (\<not> b), Filename = take 255 f, Time = t\<rparr>, None)"
proof -
  have ks: "ref_KeySize c = length (Key sk)"
    using sz by (simp add: ref_env_def)
  have "decryptStreamWithSessionKey ref_env ref_lib sk
          ([0xD2, c] @ map (xor (keymask (Key sk))) (ref_lit b f t d)) None =
        ref_ReadMessage (ref_lit b f t d, None) []
          \<lparr>ConfigTime = 0, DefaultCipher = 0, DefaultCompressionAlgo = 0, CompressionConfig = None\<rparr>"
    using algo ks
    by (simp add: decryptStreamWithSessionKey_def GetCipherFunc_def ref_lib_def ref_Next_def
        ref_Decrypt_def xor_mask_twice ref_ReadMessage_lit)
  then show ?thesis
    by (simp add: Decrypt_def DecryptAndVerify_def ref_ReadMessage_lit ReadFrom_def)
qed



lemma ref_Encrypt_Decrypt:
  assumes algo: "symKeyAlgos ref_env (Algo sk) = Some c"
    and sz: "KeySize ref_env c = length (Key sk)"
  shows "\<exists>out. fst (Encrypt ref_env ref_lib ref_writers sk P s) = Inr out \<and>
           Decrypt ref_env ref_lib sk out =
             (Some (P\<lparr>Filename := take 255 (Filename P)\<rparr>), None)"
proof -
  have "\<lparr>Data = Data P, TextType = TextType P, Filename = take 255 (Filename P), Time = Time P\<rparr>
          = P\<lparr>Filename := take 255 (Filename P)\<rparr>"
    by (cases P) simp
  then show ?thesis
    using ref_Encrypt_bytes [OF algo sz, of P s]
      ref_Decrypt_bytes [OF algo sz, of "\<not> TextType P" "Filename P" "Time P" "Data P"]
    by simp
qed



end
